theory Spec2Isabelle
  imports Main
begin

section \<open>Python values and strings\<close>

text \<open>
  The plugin is orchestration code: it reads a settings file, runs two external tools,
  splits the alpha channel of the converted image and hands the files to the host.
  Everything it does is an effect, so the model threads an explicit state (the file
  system, the in-memory configuration, the log view and the ordered trace of external
  effects) and takes the behaviour of the outside world (the two tools, the host's import
  call, whether a file can be opened for writing) as an environment record.

  An exception is a value: its class and the text \<open>str(e)\<close>. Only instances of
  Python's \<open>Exception\<close> are modelled, which is what \<open>except Exception\<close> catches.
  A character is a code point below 256.
\<close>

datatype exc_class =
    RuntimeError | ValueError | KeyError
  | OSError | FileNotFoundError | PermissionError | IsADirectoryError
  | UnidentifiedImageError
  | ParsingError | MissingSectionHeaderError | DuplicateSectionError | DuplicateOptionError
  | NoSectionError
  | InterpolationSyntaxError | InterpolationMissingOptionError | InterpolationDepthError
  | OtherException string

type_synonym exn = "exc_class \<times> string"

text \<open>\<open>isinstance(e, OSError)\<close>; \<open>IOError\<close> is an alias of \<open>OSError\<close>, and Pillow's
  \<open>UnidentifiedImageError\<close> derives from it.\<close>

fun is_oserror :: "exc_class \<Rightarrow> bool" where
  "is_oserror OSError = True"
| "is_oserror FileNotFoundError = True"
| "is_oserror PermissionError = True"
| "is_oserror IsADirectoryError = True"
| "is_oserror UnidentifiedImageError = True"
| "is_oserror _ = False"

definition newline :: char where
  "newline = CHR 0x0A"

definition carriage_return :: char where
  "carriage_return = CHR 0x0D"

definition tab :: char where
  "tab = CHR 0x09"

definition backslash :: char where
  "backslash = CHR 0x5C"

text \<open>\<open>repr\<close> of a string without quotes or escapes in it.\<close>

definition repr :: "string \<Rightarrow> string" where
  "repr s = [CHR 0x27] @ s @ [CHR 0x27]"

text \<open>\<open>str.isspace\<close> on the code points below 256.\<close>

definition is_space :: "char \<Rightarrow> bool" where
  "is_space c = ((of_char c :: nat) \<in> {9, 10, 11, 12, 13, 28, 29, 30, 31, 32, 133, 160})"

definition lstrip :: "string \<Rightarrow> string" where
  "lstrip s = dropWhile is_space s"

definition rstrip :: "string \<Rightarrow> string" where
  "rstrip s = rev (dropWhile is_space (rev s))"

definition strip :: "string \<Rightarrow> string" where
  "strip s = rstrip (lstrip s)"

text \<open>\<open>sep.join(xs)\<close>.\<close>

fun join :: "string \<Rightarrow> string list \<Rightarrow> string" where
  "join sep [] = []"
| "join sep [x] = x"
| "join sep (x # y # ys) = x @ sep @ join sep (y # ys)"

text \<open>\<open>str(n)\<close> for an integer, as an f-string prints a return code.\<close>

definition digit_char :: "nat \<Rightarrow> char" where
  "digit_char d = ''0123456789'' ! d"

fun str_nat :: "nat \<Rightarrow> string" where
  "str_nat n = (if n < 10 then [digit_char n] else str_nat (n div 10) @ [digit_char (n mod 10)])"

declare str_nat.simps [simp del]

definition str_int :: "int \<Rightarrow> string" where
  "str_int i = (if i < 0 then CHR ''-'' # str_nat (nat (- i)) else str_nat (nat i))"

section \<open>Paths\<close>

text \<open>
  \<open>os.path.basename\<close>, \<open>os.path.dirname\<close> and \<open>os.path.splitext(p)[0]\<close> with the
  separator \<open>/\<close>, which is what Qt's file dialogs return on every platform.
\<close>

definition slash :: char where
  "slash = CHR ''/''"

definition basename :: "string \<Rightarrow> string" where
  "basename p = rev (takeWhile (\<lambda>c. c \<noteq> slash) (rev p))"

definition path_head :: "string \<Rightarrow> string" where
  "path_head p = rev (dropWhile (\<lambda>c. c \<noteq> slash) (rev p))"

definition dirname :: "string \<Rightarrow> string" where
  "dirname p =
     (let head = path_head p
      in if head \<noteq> [] \<and> (\<exists>c \<in> set head. c \<noteq> slash)
         then rev (dropWhile (\<lambda>c. c = slash) (rev head))
         else head)"

definition splitext_root :: "string \<Rightarrow> string" where
  "splitext_root p =
     (let base = basename p;
          ext_len = Suc (length (takeWhile (\<lambda>c. c \<noteq> CHR ''.'') (rev base)));
          stem = take (length base - ext_len) base
      in if CHR ''.'' \<in> set base \<and> (\<exists>c \<in> set stem. c \<noteq> CHR ''.'')
         then take (length p - ext_len) p
         else p)"

section \<open>The outside world\<close>

text \<open>
  An image as Pillow holds it: a mode, a size, and one plane of samples per band. The
  codecs are Pillow's; a file that holds an image is kept decoded.
\<close>

datatype pil_mode =
    Mode_1 | Mode_L | Mode_P | Mode_RGB | Mode_RGBA | Mode_CMYK | Mode_YCbCr
  | Mode_LAB | Mode_HSV | Mode_I | Mode_F | Mode_LA | Mode_PA | Mode_RGBX
  | Mode_RGBa | Mode_La | Mode_I16

fun mode_name :: "pil_mode \<Rightarrow> string" where
  "mode_name Mode_1 = ''1''"
| "mode_name Mode_L = ''L''"
| "mode_name Mode_P = ''P''"
| "mode_name Mode_RGB = ''RGB''"
| "mode_name Mode_RGBA = ''RGBA''"
| "mode_name Mode_CMYK = ''CMYK''"
| "mode_name Mode_YCbCr = ''YCbCr''"
| "mode_name Mode_LAB = ''LAB''"
| "mode_name Mode_HSV = ''HSV''"
| "mode_name Mode_I = ''I''"
| "mode_name Mode_F = ''F''"
| "mode_name Mode_LA = ''LA''"
| "mode_name Mode_PA = ''PA''"
| "mode_name Mode_RGBX = ''RGBX''"
| "mode_name Mode_RGBa = ''RGBa''"
| "mode_name Mode_La = ''La''"
| "mode_name Mode_I16 = ''I;16''"

text \<open>\<open>Image.getbands()\<close>.\<close>

fun getbands :: "pil_mode \<Rightarrow> string list" where
  "getbands Mode_1 = [''1'']"
| "getbands Mode_L = [''L'']"
| "getbands Mode_P = [''P'']"
| "getbands Mode_RGB = [''R'', ''G'', ''B'']"
| "getbands Mode_RGBA = [''R'', ''G'', ''B'', ''A'']"
| "getbands Mode_CMYK = [''C'', ''M'', ''Y'', ''K'']"
| "getbands Mode_YCbCr = [''Y'', ''Cb'', ''Cr'']"
| "getbands Mode_LAB = [''L'', ''A'', ''B'']"
| "getbands Mode_HSV = [''H'', ''S'', ''V'']"
| "getbands Mode_I = [''I'']"
| "getbands Mode_F = [''F'']"
| "getbands Mode_LA = [''L'', ''A'']"
| "getbands Mode_PA = [''P'', ''A'']"
| "getbands Mode_RGBX = [''R'', ''G'', ''B'', ''X'']"
| "getbands Mode_RGBa = [''R'', ''G'', ''B'', ''a'']"
| "getbands Mode_La = [''L'', ''a'']"
| "getbands Mode_I16 = [''I'']"

record image =
  mode :: pil_mode
  size :: "nat \<times> nat"
  planes :: "nat list list"

text \<open>
  A file holds an image, a text (the settings file is one: the text that
  \<open>ConfigParser.write\<close> printed, or that somebody typed), or other bytes.
\<close>

datatype content = ImageData image | Text string | Blob

datatype node = Directory | File content

type_synonym filesystem = "string \<rightharpoonup> node"

definition path_exists :: "filesystem \<Rightarrow> string \<Rightarrow> bool" where
  "path_exists f p = (f p \<noteq> None)"

definition isfile :: "filesystem \<Rightarrow> string \<Rightarrow> bool" where
  "isfile f p = (case f p of Some (File _) \<Rightarrow> True | _ \<Rightarrow> False)"

text \<open>The result of \<open>subprocess.run(cmd, capture_output=True, text=True)\<close>.\<close>

record completed =
  returncode :: int
  stdout :: string
  stderr :: string

text \<open>The external effects, in the order they happen. \<open>Print\<close> is a line on the host's
  console, \<open>PrintExc\<close> is \<open>traceback.print_exc()\<close>.\<close>

datatype Usage = TEXTURE

datatype event =
    Print string
  | RunProcess "string list"
  | MessageBox string string
  | ImportResource string Usage string
  | PrintExc exn

text \<open>
  The environment: what a started process returns and does to the files (or the
  exception when it cannot be started), whether the host's
  \<open>import_session_resource(file_path, resource_usage, name)\<close> raises, whether opening a
  file for writing raises, and where the settings file lives. Each may depend on what
  happened before.
\<close>

record env =
  subprocess_run :: "event list \<Rightarrow> filesystem \<Rightarrow> string list \<Rightarrow> (exn + completed) \<times> filesystem"
  import_session_resource ::
    "event list \<Rightarrow> filesystem \<Rightarrow> string \<Rightarrow> Usage \<Rightarrow> string \<Rightarrow> exn option"
  open_for_writing :: "filesystem \<Rightarrow> string \<Rightarrow> exn option"
  CONFIG_FILE :: string

text \<open>A Python dictionary with string keys: its entries in the order they were added.
  \<open>d[k] = v\<close> replaces the value of a key that is there and adds the entry at the end
  otherwise.\<close>

type_synonym 'v dict = "(string \<times> 'v) list"

fun dict_set :: "string \<Rightarrow> 'v \<Rightarrow> 'v dict \<Rightarrow> 'v dict" where
  "dict_set k v [] = [(k, v)]"
| "dict_set k v ((k', v') # kvs) =
     (if k' = k then (k, v) # kvs else (k', v') # dict_set k v kvs)"

text \<open>The in-memory \<open>ConfigParser\<close>: its sections and its \<open>DEFAULT\<close> section.\<close>

record config_parser =
  sections :: "string dict dict"
  defaults :: "string dict"

record state =
  fs :: filesystem
  config :: config_parser
  log_window :: "string list"
  events :: "event list"

section \<open>Utility functions\<close>

definition show_message_box :: "state \<Rightarrow> string \<Rightarrow> string \<Rightarrow> state" where
  "show_message_box s title txt = s\<lparr>events := events s @ [MessageBox title txt]\<rparr>"

definition log_to_painter_console :: "state \<Rightarrow> string \<Rightarrow> state" where
  "log_to_painter_console s message = s\<lparr>events := events s @ [Print message]\<rparr>"

subsection \<open>Converter adapters\<close>

definition bcdecode_cmd :: "string \<Rightarrow> string \<Rightarrow> string \<Rightarrow> string list" where
  "bcdecode_cmd bcdecode_exe input_dds output_dds =
     [bcdecode_exe, input_dds, output_dds, ''0'', ''2'']"

definition run_bcdecode ::
  "env \<Rightarrow> state \<Rightarrow> string \<Rightarrow> string \<Rightarrow> string \<Rightarrow> (exn + unit) \<times> state" where
  "run_bcdecode e s bcdecode_exe input_dds output_dds =
     (let cmd = bcdecode_cmd bcdecode_exe input_dds output_dds;
          (r, fs') = subprocess_run e (events s) (fs s) cmd;
          s' = s\<lparr>fs := fs', events := events s @ [RunProcess cmd]\<rparr>
      in case r of
           Inl ex \<Rightarrow> (Inl ex, s')
         | Inr result \<Rightarrow>
             if returncode result \<noteq> 0
             then (Inl (RuntimeError,
                        ''bcdecode failed with code '' @ str_int (returncode result)
                          @ [newline] @ stderr result), s')
             else (Inr (), s'))"

definition texconv_command :: "string \<Rightarrow> string \<Rightarrow> string \<Rightarrow> string list" where
  "texconv_command texconv_exe dds_file output_png =
     [texconv_exe, ''-ft'', ''png'', ''-o'', dirname output_png, ''-y'', dds_file]"

definition convert_dds_to_png ::
  "env \<Rightarrow> state \<Rightarrow> string \<Rightarrow> string \<Rightarrow> string \<Rightarrow> (exn + unit) \<times> state" where
  "convert_dds_to_png e s texconv_exe dds_file output_png =
     (let command = texconv_command texconv_exe dds_file output_png;
          s1 = s\<lparr>events := events s @ [Print (''Running texconv command: '' @ join '' '' command)]\<rparr>;
          (r, fs') = subprocess_run e (events s1) (fs s1) command;
          s2 = s1\<lparr>fs := fs', events := events s1 @ [RunProcess command]\<rparr>;
          tried =
            (case r of
               Inl ex \<Rightarrow> Inl ex
             | Inr result \<Rightarrow>
                 if returncode result \<noteq> 0
                 then Inl (RuntimeError,
                           ''texconv failed with code '' @ str_int (returncode result) @ '':''
                             @ [newline] @ strip (stderr result)
                             @ [newline] @ strip (stdout result))
                 else Inr ())
      in case tried of
           Inl ex \<Rightarrow>
             (Inl (RuntimeError, ''Failed to convert '' @ dds_file @ '' to PNG: '' @ snd ex), s2)
         | Inr u \<Rightarrow> (Inr (), s2))"

subsection \<open>Image post-processing\<close>

text \<open>
  \<open>Image.open\<close> fails with \<open>FileNotFoundError\<close> on a missing file, with another
  \<open>OSError\<close> on a directory and with \<open>UnidentifiedImageError\<close> on a file that is not
  an image. \<open>Image.save\<close> is taken to succeed and to keep the image as it is: the plugin
  saves modes \<open>L\<close> and \<open>RGB\<close> under names ending in \<open>.png\<close>, beside the file the
  tool has just written.
\<close>

definition image_open :: "filesystem \<Rightarrow> string \<Rightarrow> exn + image" where
  "image_open f p =
     (case f p of
        None \<Rightarrow> Inl (FileNotFoundError, ''[Errno 2] No such file or directory: '' @ repr p)
      | Some Directory \<Rightarrow> Inl (PermissionError, ''[Errno 13] Permission denied: '' @ repr p)
      | Some (File (ImageData img)) \<Rightarrow> Inr img
      | Some (File _) \<Rightarrow>
          Inl (UnidentifiedImageError, ''cannot identify image file '' @ repr p))"

definition image_save :: "filesystem \<Rightarrow> image \<Rightarrow> string \<Rightarrow> filesystem" where
  "image_save f img p = f(p \<mapsto> File (ImageData img))"

fun index_of :: "'a \<Rightarrow> 'a list \<Rightarrow> nat option" where
  "index_of a [] = None"
| "index_of a (x # xs) = (if x = a then Some 0 else map_option Suc (index_of a xs))"

text \<open>\<open>img.getchannel(name)\<close>: a mode \<open>L\<close> image holding that band.\<close>

definition getchannel :: "image \<Rightarrow> string \<Rightarrow> exn + image" where
  "getchannel img channel =
     (case index_of channel (getbands (mode img)) of
        None \<Rightarrow> Inl (ValueError, ''The image has no channel '' @ channel)
      | Some i \<Rightarrow>
          if i < length (planes img)
          then Inr \<lparr>mode = Mode_L, size = size img, planes = [planes img ! i]\<rparr>
          else Inl (ValueError, ''band index out of range''))"

text \<open>\<open>img.convert("RGB")\<close> on an \<open>RGBA\<close> image: the three colour planes, alpha dropped.\<close>

definition convert_RGB :: "image \<Rightarrow> image" where
  "convert_RGB img = \<lparr>mode = Mode_RGB, size = size img, planes = take 3 (planes img)\<rparr>"

definition extract_alpha_channel ::
  "state \<Rightarrow> string \<Rightarrow> string \<Rightarrow> (exn + bool) \<times> state" where
  "extract_alpha_channel s input_png output_alpha_png =
     (let tried =
            (case image_open (fs s) input_png of
               Inl ex \<Rightarrow> (Inl ex, s)
             | Inr img \<Rightarrow>
                 if mode img \<in> {Mode_RGBA, Mode_LA} \<or> ''A'' \<in> set (getbands (mode img))
                 then (case getchannel img ''A'' of
                         Inl ex \<Rightarrow> (Inl ex, s)
                       | Inr alpha \<Rightarrow>
                           (Inr True, s\<lparr>fs := image_save (fs s) alpha output_alpha_png\<rparr>))
                 else (Inr False, s))
      in case tried of
           (Inl ex, s') \<Rightarrow>
             if fst ex = UnidentifiedImageError
             then (Inl (RuntimeError,
                        ''Failed to extract alpha channel from '' @ input_png @ '': '' @ snd ex), s')
             else (Inl ex, s')
         | (Inr b, s') \<Rightarrow> (Inr b, s'))"

definition remove_alpha_channel :: "state \<Rightarrow> string \<Rightarrow> (exn + unit) \<times> state" where
  "remove_alpha_channel s input_png =
     (let tried =
            (case image_open (fs s) input_png of
               Inl ex \<Rightarrow> (Inl ex, s)
             | Inr img \<Rightarrow>
                 if mode img = Mode_RGBA
                 then (let rgb_image = convert_RGB img
                       in (Inr (), s\<lparr>fs := image_save (fs s) rgb_image input_png\<rparr>))
                 else (Inr (), s))
      in case tried of
           (Inl ex, s') \<Rightarrow>
             if fst ex = UnidentifiedImageError
             then (Inl (RuntimeError,
                        ''Failed to remove alpha channel from '' @ input_png @ '': '' @ snd ex), s')
             else (Inl ex, s')
         | (Inr u, s') \<Rightarrow> (Inr (), s'))"

section \<open>ConfigParser\<close>

text \<open>
  The standard library's \<open>ConfigParser\<close> as the plugin uses it, with its default
  \<open>BasicInterpolation\<close>: a value is checked when it is set and expanded when it is
  read with \<open>get\<close> (\<open>%%\<close> stands for a percent sign, \<open>%(name)s\<close> for the value of
  another option). The settings file is text: \<open>write\<close> prints it and \<open>read\<close> parses it
  line by line, with the parser's defaults (delimiters \<open>=\<close> and \<open>:\<close>, comment lines
  that start with \<open>#\<close> or \<open>;\<close>, no inline comments, empty lines allowed in values,
  strict). The texts of the library's own exceptions are abbreviated.
\<close>

definition DEFAULTSECT :: string where
  "DEFAULTSECT = ''DEFAULT''"

definition MAX_INTERPOLATION_DEPTH :: nat where
  "MAX_INTERPOLATION_DEPTH = 10"

definition percent :: char where
  "percent = CHR ''%''"

definition lower_char :: "char \<Rightarrow> char" where
  "lower_char c =
     (case index_of c ''ABCDEFGHIJKLMNOPQRSTUVWXYZ'' of
        None \<Rightarrow> c
      | Some i \<Rightarrow> ''abcdefghijklmnopqrstuvwxyz'' ! i)"

definition optionxform :: "string \<Rightarrow> string" where
  "optionxform optionstr = map lower_char optionstr"

text \<open>The pattern \<open>%\(([^)]+)\)s\<close> at the start of a string: the name and what
  follows the match.\<close>

definition keycre_match :: "string \<Rightarrow> (string \<times> string) option" where
  "keycre_match s =
     (case s of
        c1 # c2 # cs \<Rightarrow>
          if c1 = percent \<and> c2 = CHR ''(''
          then (let name = takeWhile (\<lambda>c. c \<noteq> CHR '')'') cs
                in case dropWhile (\<lambda>c. c \<noteq> CHR '')'') cs of
                     p # q # rest \<Rightarrow>
                       if name \<noteq> [] \<and> q = CHR ''s'' then Some (name, rest) else None
                   | _ \<Rightarrow> None)
          else None
      | _ \<Rightarrow> None)"

text \<open>\<open>value.replace('%%', '')\<close> and \<open>_KEYCRE.sub('', tmp_value)\<close>.\<close>

fun remove_escaped :: "string \<Rightarrow> string" where
  "remove_escaped (c1 # c2 # cs) =
     (if c1 = percent \<and> c2 = percent then remove_escaped cs else c1 # remove_escaped (c2 # cs))"
| "remove_escaped cs = cs"

function remove_refs :: "string \<Rightarrow> string" where
  "remove_refs [] = []"
| "remove_refs (c # cs) =
     (case keycre_match (c # cs) of
        Some (name, rest) \<Rightarrow> remove_refs rest
      | None \<Rightarrow> c # remove_refs cs)"
  by pat_completeness auto
termination
proof (relation "measure length")
  fix c cs x name rest
  assume "keycre_match (c # cs) = Some x" and "(name, rest) = x"
  then obtain ds p where "dropWhile (\<lambda>c. c \<noteq> CHR '')'') ds = p # CHR ''s'' # rest"
    and "c # cs = percent # CHR ''('' # ds"
    by (auto simp: keycre_match_def Let_def split: list.splits if_splits)
  moreover have "length (dropWhile (\<lambda>c. c \<noteq> CHR '')'') ds) \<le> length ds"
    by (rule length_dropWhile_le)
  ultimately show "(rest, c # cs) \<in> measure length"
    by simp
qed simp_all

definition before_set :: "string \<Rightarrow> exn option" where
  "before_set v =
     (let tmp_value = remove_refs (remove_escaped v)
      in if percent \<in> set tmp_value
         then Some (ValueError, ''invalid interpolation syntax in '' @ v)
         else None)"

text \<open>\<open>BasicInterpolation._interpolate_some\<close>; the accumulator is the result.\<close>

function interpolate_some :: "(string \<rightharpoonup> string) \<Rightarrow> nat \<Rightarrow> string \<Rightarrow> exn + string" where
  "interpolate_some m depth rest =
     (if depth > MAX_INTERPOLATION_DEPTH
      then Inl (InterpolationDepthError, ''Recursion limit exceeded in value substitution'')
      else case rest of
        [] \<Rightarrow> Inr []
      | c # cs \<Rightarrow>
          if c \<noteq> percent
          then (case interpolate_some m depth cs of
                  Inl ex \<Rightarrow> Inl ex
                | Inr out \<Rightarrow> Inr (c # out))
          else if take 1 cs = [percent]
          then (case interpolate_some m depth (drop 1 cs) of
                  Inl ex \<Rightarrow> Inl ex
                | Inr out \<Rightarrow> Inr (percent # out))
          else if take 1 cs = ''(''
          then (case keycre_match rest of
                  None \<Rightarrow>
                    Inl (InterpolationSyntaxError,
                         ''bad interpolation variable reference '' @ rest)
                | Some (name, rest') \<Rightarrow>
                    (case m (optionxform name) of
                       None \<Rightarrow>
                         Inl (InterpolationMissingOptionError,
                              ''Bad value substitution: interpolation key ''
                                @ optionxform name @ '' is not a valid option name'')
                     | Some v \<Rightarrow>
                         (case (if percent \<in> set v then interpolate_some m (depth + 1) v
                                else Inr v) of
                            Inl ex \<Rightarrow> Inl ex
                          | Inr a \<Rightarrow>
                              (case interpolate_some m depth rest' of
                                 Inl ex \<Rightarrow> Inl ex
                               | Inr b \<Rightarrow> Inr (a @ b)))))
          else Inl (InterpolationSyntaxError,
                    ''%  must be followed by % or (, found: '' @ rest))"
  by pat_completeness auto
termination
proof (relation "measures [\<lambda>(m, depth, rest). Suc MAX_INTERPOLATION_DEPTH - depth,
                            \<lambda>(m, depth, rest). length rest]")
  fix m :: "string \<rightharpoonup> string" and depth :: nat and rest c cs x name rest' v
  assume "rest = c # cs" and "keycre_match rest = Some x" and "(name, rest') = x"
  then obtain ds p where "dropWhile (\<lambda>c. c \<noteq> CHR '')'') ds = p # CHR ''s'' # rest'"
    and "rest = percent # CHR ''('' # ds"
    by (auto simp: keycre_match_def Let_def split: list.splits if_splits)
  moreover have "length (dropWhile (\<lambda>c. c \<noteq> CHR '')'') ds) \<le> length ds"
    by (rule length_dropWhile_le)
  ultimately show "((m, depth, rest'), (m, depth, rest))
      \<in> measures [\<lambda>(m, depth, rest). Suc MAX_INTERPOLATION_DEPTH - depth,
                    \<lambda>(m, depth, rest). length rest]"
    by simp
qed auto

declare interpolate_some.simps [simp del]

definition before_get :: "(string \<rightharpoonup> string) \<Rightarrow> string \<Rightarrow> exn + string" where
  "before_get d v = interpolate_some d 1 v"

definition fresh_config :: config_parser where
  "fresh_config = \<lparr>sections = [], defaults = []\<rparr>"

text \<open>\<open>parser[key]\<close>: the section proxy, which is the section's name.\<close>

definition parser_getitem :: "config_parser \<Rightarrow> string \<Rightarrow> exn + string" where
  "parser_getitem c key =
     (if key \<noteq> DEFAULTSECT \<and> map_of (sections c) key = None then Inl (KeyError, repr key)
      else Inr key)"

text \<open>\<open>proxy.get(option, fallback)\<close>: the option is looked up in the section, then in
  \<open>DEFAULT\<close>, and expanded.\<close>

definition proxy_get ::
  "config_parser \<Rightarrow> string \<Rightarrow> string \<Rightarrow> string option \<Rightarrow> exn + string option" where
  "proxy_get c name option fallback =
     (case (case map_of (sections c) name of
              Some sectiondict \<Rightarrow> Some sectiondict
            | None \<Rightarrow> if name \<noteq> DEFAULTSECT then None else Some []) of
        None \<Rightarrow> Inr fallback
      | Some sectiondict \<Rightarrow>
          (let d = map_of (defaults c) ++ map_of sectiondict
           in case d (optionxform option) of
                None \<Rightarrow> Inr fallback
              | Some v \<Rightarrow>
                  (case before_get d v of
                     Inl ex \<Rightarrow> Inl ex
                   | Inr out \<Rightarrow> Inr (Some out))))"

text \<open>\<open>parser.set(section, option, value)\<close>.\<close>

definition parser_set ::
  "config_parser \<Rightarrow> string \<Rightarrow> string \<Rightarrow> string \<Rightarrow> exn + config_parser" where
  "parser_set c section option v =
     (case (if v \<noteq> [] then before_set v else None) of
        Some ex \<Rightarrow> Inl ex
      | None \<Rightarrow>
          if section = [] \<or> section = DEFAULTSECT
          then Inr (c\<lparr>defaults := dict_set (optionxform option) v (defaults c)\<rparr>)
          else (case map_of (sections c) section of
                  None \<Rightarrow> Inl (NoSectionError, ''No section: '' @ repr section)
                | Some sectdict \<Rightarrow>
                    Inr (c\<lparr>sections :=
                            dict_set section (dict_set (optionxform option) v sectdict)
                              (sections c)\<rparr>)))"

fun set_all ::
  "config_parser \<Rightarrow> string \<Rightarrow> (string \<times> string) list \<Rightarrow> exn + config_parser" where
  "set_all c section [] = Inr c"
| "set_all c section ((k, v) # kvs) =
     (case parser_set c section k v of
        Inl ex \<Rightarrow> Inl ex
      | Inr c' \<Rightarrow> set_all c' section kvs)"

text \<open>\<open>parser[key] = {...}\<close> for a section other than \<open>DEFAULT\<close>, with a dictionary whose
  keys differ: the section is emptied or added, then every entry is set.\<close>

definition parser_setitem ::
  "config_parser \<Rightarrow> string \<Rightarrow> (string \<times> string) list \<Rightarrow> exn + config_parser" where
  "parser_setitem c key kvs = set_all (c\<lparr>sections := dict_set key [] (sections c)\<rparr>) key kvs"

subsection \<open>Writing\<close>

text \<open>\<open>str(value).replace('\n', '\n\t')\<close>.\<close>

fun indent_newlines :: "string \<Rightarrow> string" where
  "indent_newlines [] = []"
| "indent_newlines (c # cs) =
     (if c = newline then newline # tab # indent_newlines cs else c # indent_newlines cs)"

text \<open>\<open>parser._write_section\<close> with the delimiter \<open>" = "\<close>, and \<open>parser.write\<close>: the
  \<open>DEFAULT\<close> section when it has entries, then every section.\<close>

definition write_option :: "string \<times> string \<Rightarrow> string" where
  "write_option kv = fst kv @ '' = '' @ indent_newlines (snd kv) @ [newline]"

definition write_section :: "string \<Rightarrow> string dict \<Rightarrow> string" where
  "write_section section_name section_items =
     ''['' @ section_name @ '']'' @ [newline]
       @ concat (map write_option section_items) @ [newline]"

definition parser_write :: "config_parser \<Rightarrow> string" where
  "parser_write c =
     (if defaults c \<noteq> [] then write_section DEFAULTSECT (defaults c) else [])
       @ concat (map (\<lambda>(name, section_items). write_section name section_items) (sections c))"

subsection \<open>Reading\<close>

text \<open>
  A text file is read with universal newlines: \<open>\r\n\<close> and \<open>\r\<close> arrive as \<open>\n\<close>.
  The lines are kept without the newline that ends them, which the reader strips anyway.
\<close>

fun universal_newlines :: "string \<Rightarrow> string" where
  "universal_newlines [] = []"
| "universal_newlines [c] = (if c = carriage_return then [newline] else [c])"
| "universal_newlines (c1 # c2 # cs) =
     (if c1 = carriage_return \<and> c2 = newline then newline # universal_newlines cs
      else if c1 = carriage_return then newline # universal_newlines (c2 # cs)
      else c1 # universal_newlines (c2 # cs))"

fun split_lines :: "string \<Rightarrow> string \<Rightarrow> string list" where
  "split_lines cur [] = (if cur = [] then [] else [cur])"
| "split_lines cur (c # cs) =
     (if c = newline then cur # split_lines [] cs else split_lines (cur @ [c]) cs)"

definition file_lines :: "string \<Rightarrow> string list" where
  "file_lines text = split_lines [] (universal_newlines text)"

text \<open>The pattern \<open>\[(?P<header>.+)\]\<close> at the start of a stripped line: the header runs
  to the last closing bracket.\<close>

definition sect_match :: "string \<Rightarrow> string option" where
  "sect_match v =
     (case v of
        [] \<Rightarrow> None
      | c # rest \<Rightarrow>
          (let header = rev (drop 1 (dropWhile (\<lambda>x. x \<noteq> CHR '']'') (rev rest)))
           in if c = CHR ''['' \<and> CHR '']'' \<in> set rest \<and> header \<noteq> [] then Some header
              else None))"

text \<open>The pattern \<open>(?P<option>.*?)\s*(?P<vi>=|:)\s*(?P<value>.*)$\<close> on a stripped line:
  the option is the shortest start of the line after which white space and a delimiter
  follow; the value is what follows the delimiter and the white space after it.\<close>

definition is_delimiter :: "char \<Rightarrow> bool" where
  "is_delimiter c = (c = CHR ''='' \<or> c = CHR '':'')"

fun opt_match :: "string \<Rightarrow> (string \<times> string) option" where
  "opt_match [] = None"
| "opt_match (c # cs) =
     (case lstrip (c # cs) of
        [] \<Rightarrow> None
      | d # rest \<Rightarrow>
          if is_delimiter d then Some ([], lstrip rest)
          else map_option (\<lambda>(option, v). (c # option, v)) (opt_match cs))"

text \<open>
  The state of \<open>parser._read\<close> while it goes through the lines: the sections and options
  read from this file so far, each option with the lines of its value; the current
  section; the current option (empty when there is none); the indentation of the last
  section or option line; the sections and options of this file (\<open>elements_added\<close>);
  and whether a line could not be parsed.
\<close>

record reader =
  table :: "string list dict dict"
  cursect :: "string option"
  optname :: string
  indent_level :: nat
  sections_added :: "string list"
  options_added :: "(string \<times> string) list"
  parse_error :: bool

definition new_reader :: reader where
  "new_reader =
     \<lparr>table = [], cursect = None, optname = [], indent_level = 0, sections_added = [],
      options_added = [], parse_error = False\<rparr>"

text \<open>\<open>cursect[optname].append(value)\<close>.\<close>

definition append_line :: "reader \<Rightarrow> string \<Rightarrow> reader" where
  "append_line r v =
     (case cursect r of
        None \<Rightarrow> r
      | Some sectname \<Rightarrow>
          (case map_of (table r) sectname of
             None \<Rightarrow> r
           | Some opts \<Rightarrow>
               (case map_of opts (optname r) of
                  None \<Rightarrow> r
                | Some ls \<Rightarrow>
                    r\<lparr>table := dict_set sectname (dict_set (optname r) (ls @ [v]) opts)
                                  (table r)\<rparr>)))"

definition is_comment :: "string \<Rightarrow> bool" where
  "is_comment line = (take 1 (strip line) = ''#'' \<or> take 1 (strip line) = '';'')"

text \<open>One pass of the loop of \<open>parser._read\<close>, for one line.\<close>

definition read_line :: "reader \<Rightarrow> string \<Rightarrow> exn + reader" where
  "read_line r line =
     (let v = (if is_comment line then [] else strip line)
      in if v = []
         then (if \<not> is_comment line \<and> cursect r \<noteq> None \<and> optname r \<noteq> []
               then Inr (append_line r [])
               else Inr r)
         else
           (let cur_indent_level = length (takeWhile is_space line)
            in if cursect r \<noteq> None \<and> optname r \<noteq> [] \<and> cur_indent_level > indent_level r
               then Inr (append_line r v)
               else
                 (case sect_match v of
                    Some sectname \<Rightarrow>
                      if sectname \<noteq> DEFAULTSECT \<and> sectname \<in> set (sections_added r)
                      then Inl (DuplicateSectionError,
                                ''section '' @ repr sectname @ '' already exists'')
                      else Inr (r\<lparr>table :=
                                    (if map_of (table r) sectname = None
                                     then table r @ [(sectname, [])] else table r),
                                  cursect := Some sectname,
                                  optname := [],
                                  indent_level := cur_indent_level,
                                  sections_added :=
                                    (if sectname = DEFAULTSECT then sections_added r
                                     else sections_added r @ [sectname])\<rparr>)
                  | None \<Rightarrow>
                      (case cursect r of
                         None \<Rightarrow>
                           Inl (MissingSectionHeaderError,
                                ''File contains no section headers.'')
                       | Some sectname \<Rightarrow>
                           (case opt_match v of
                              None \<Rightarrow>
                                Inr (r\<lparr>indent_level := cur_indent_level,
                                       parse_error := True\<rparr>)
                            | Some (option, optval) \<Rightarrow>
                                (let name = optionxform (rstrip option)
                                 in if (sectname, name) \<in> set (options_added r)
                                    then Inl (DuplicateOptionError,
                                              ''option '' @ repr name @ '' in section ''
                                                @ repr sectname @ '' already exists'')
                                    else Inr (r\<lparr>table :=
                                                  dict_set sectname
                                                    (dict_set name [strip optval]
                                                       (case map_of (table r) sectname of
                                                          None \<Rightarrow> []
                                                        | Some opts \<Rightarrow> opts))
                                                    (table r),
                                                optname := name,
                                                indent_level := cur_indent_level,
                                                options_added :=
                                                  options_added r @ [(sectname, name)],
                                                parse_error :=
                                                  (parse_error r \<or> option = [])\<rparr>)))))))"

fun read_lines :: "reader \<Rightarrow> string list \<Rightarrow> exn + reader" where
  "read_lines r [] = Inr r"
| "read_lines r (line # ls) =
     (case read_line r line of
        Inl ex \<Rightarrow> Inl ex
      | Inr r' \<Rightarrow> read_lines r' ls)"

text \<open>\<open>parser._join_multiline_values\<close>: the lines of a value are joined and the white
  space at the end is dropped.\<close>

definition join_value :: "string list \<Rightarrow> string" where
  "join_value ls = rstrip (join [newline] ls)"

text \<open>What a text holds for a reader: the sections in the order of the text, each with
  its options and their values, or the error the reader raises.\<close>

definition parse_text :: "string \<Rightarrow> exn + string dict dict" where
  "parse_text text =
     (case read_lines new_reader (file_lines text) of
        Inl ex \<Rightarrow> Inl ex
      | Inr r \<Rightarrow>
          if parse_error r then Inl (ParsingError, ''Source contains parsing errors'')
          else Inr (map (\<lambda>(sectname, opts).
                           (sectname, map (\<lambda>(name, ls). (name, join_value ls)) opts))
                      (table r)))"

text \<open>The options read are stored in the parser: in the section they belong to, which is
  added when it is new, or in \<open>DEFAULT\<close>.\<close>

definition store_options :: "string dict \<Rightarrow> string dict \<Rightarrow> string dict" where
  "store_options opts d = fold (\<lambda>(name, v). dict_set name v) opts d"

fun store_sections :: "string dict dict \<Rightarrow> config_parser \<Rightarrow> config_parser" where
  "store_sections [] c = c"
| "store_sections ((sectname, opts) # rest) c =
     store_sections rest
       (if sectname = DEFAULTSECT then c\<lparr>defaults := store_options opts (defaults c)\<rparr>
        else c\<lparr>sections :=
                 dict_set sectname
                   (store_options opts
                      (case map_of (sections c) sectname of None \<Rightarrow> [] | Some d \<Rightarrow> d))
                   (sections c)\<rparr>)"

text \<open>\<open>parser.read(filename)\<close>: a file that cannot be opened is skipped. When the reader
  raises, the exception leaves \<open>__init__\<close>, and what the parser holds by then is not
  modelled.\<close>

definition parser_read :: "config_parser \<Rightarrow> filesystem \<Rightarrow> string \<Rightarrow> exn + config_parser" where
  "parser_read c f filename =
     (case f filename of
        Some (File (Text text)) \<Rightarrow>
          (case parse_text text of
             Inl ex \<Rightarrow> Inl ex
           | Inr t \<Rightarrow> Inr (store_sections t c))
      | Some (File _) \<Rightarrow> Inl (ParsingError, ''Source contains parsing errors: '' @ repr filename)
      | _ \<Rightarrow> Inr c)"

section \<open>The plugin\<close>

definition log :: "state \<Rightarrow> string \<Rightarrow> state" where
  "log s message = log_to_painter_console (s\<lparr>log_window := log_window s @ [message]\<rparr>) message"

definition clear_log :: "state \<Rightarrow> state" where
  "clear_log s = s\<lparr>log_window := []\<rparr>"

subsection \<open>Configuration\<close>

definition default_texconv :: string where
  "default_texconv =
     ''C:'' @ [backslash, backslash] @ ''DirectXTex'' @ [backslash, backslash] @ ''Texconv''
       @ [backslash, backslash] @ ''texconv.exe''"

definition default_bcdecode :: string where
  "default_bcdecode =
     ''C:'' @ [backslash, backslash] @ ''fo76utils'' @ [backslash, backslash] @ ''bcdecode.exe''"

definition save_config :: "env \<Rightarrow> state \<Rightarrow> (exn + unit) \<times> state" where
  "save_config e s =
     (case open_for_writing e (fs s) (CONFIG_FILE e) of
        None \<Rightarrow>
          (Inr (), s\<lparr>fs := (fs s)(CONFIG_FILE e \<mapsto> File (Text (parser_write (config s))))\<rparr>)
      | Some ex \<Rightarrow>
          if is_oserror (fst ex)
          then (Inr (), log s (''Failed to save configuration: '' @ snd ex))
          else (Inl ex, s))"

definition create_default_config :: "env \<Rightarrow> state \<Rightarrow> (exn + unit) \<times> state" where
  "create_default_config e s =
     (case parser_setitem (config s) ''Paths''
             [(''texconv'', default_texconv), (''bcdecode'', default_bcdecode)] of
        Inl ex \<Rightarrow> (Inl ex, s)
      | Inr c \<Rightarrow> save_config e (s\<lparr>config := c\<rparr>))"

definition load_config :: "env \<Rightarrow> state \<Rightarrow> (exn + unit) \<times> state" where
  "load_config e s =
     (case (if \<not> path_exists (fs s) (CONFIG_FILE e) then create_default_config e s
            else (Inr (), s)) of
        (Inl ex, s1) \<Rightarrow> (Inl ex, s1)
      | (Inr u, s1) \<Rightarrow>
          (case parser_read (config s1) (fs s1) (CONFIG_FILE e) of
             Inl ex \<Rightarrow> (Inl ex, s1)
           | Inr c \<Rightarrow> (Inr (), s1\<lparr>config := c\<rparr>)))"

text \<open>\<open>self.config["Paths"].get(option, fallback)\<close>.\<close>

definition paths_get :: "state \<Rightarrow> string \<Rightarrow> string option \<Rightarrow> exn + string option" where
  "paths_get s option fallback =
     (case parser_getitem (config s) ''Paths'' of
        Inl ex \<Rightarrow> Inl ex
      | Inr proxy \<Rightarrow> proxy_get (config s) proxy option fallback)"

text \<open>\<open>self.config["Paths"][option] = value\<close>.\<close>

definition paths_setitem :: "state \<Rightarrow> string \<Rightarrow> string \<Rightarrow> (exn + unit) \<times> state" where
  "paths_setitem s option v =
     (case parser_getitem (config s) ''Paths'' of
        Inl ex \<Rightarrow> (Inl ex, s)
      | Inr proxy \<Rightarrow>
          (case parser_set (config s) proxy option v of
             Inl ex \<Rightarrow> (Inl ex, s)
           | Inr c \<Rightarrow> (Inr (), s\<lparr>config := c\<rparr>)))"

text \<open>How an f-string prints a value that is a string or \<open>None\<close>.\<close>

definition str_optional :: "string option \<Rightarrow> string" where
  "str_optional v = (case v of None \<Rightarrow> ''None'' | Some x \<Rightarrow> x)"

definition display_initial_info :: "state \<Rightarrow> (exn + unit) \<times> state" where
  "display_initial_info s =
     (case paths_get s ''texconv'' (Some ''Not set'') of
        Inl ex \<Rightarrow> (Inl ex, s)
      | Inr texconv_path \<Rightarrow>
          (case paths_get s ''bcdecode'' (Some ''Not set'') of
             Inl ex \<Rightarrow> (Inl ex, s)
           | Inr bcdecode_path \<Rightarrow>
               (Inr (), log (log s (''texconv location: '' @ str_optional texconv_path))
                            (''bcdecode location: '' @ str_optional bcdecode_path))))"

text \<open>The two "set location" handlers; the argument is the path the file dialog
  returned, empty when the user cancelled.\<close>

definition set_texconv_location :: "env \<Rightarrow> state \<Rightarrow> string \<Rightarrow> (exn + unit) \<times> state" where
  "set_texconv_location e s texconv_path =
     (if texconv_path \<noteq> []
      then (case paths_setitem s ''texconv'' texconv_path of
              (Inl ex, s1) \<Rightarrow> (Inl ex, s1)
            | (Inr u, s1) \<Rightarrow>
                (case save_config e s1 of
                   (Inl ex, s2) \<Rightarrow> (Inl ex, s2)
                 | (Inr u', s2) \<Rightarrow>
                     (Inr (), log s2 (''texconv location set to: '' @ texconv_path))))
      else (Inr (), log s (''Texconv executable not set. Get the latest version here: ''
                             @ ''https://github.com/microsoft/DirectXTex'')))"

definition set_bcdecode_location :: "env \<Rightarrow> state \<Rightarrow> string \<Rightarrow> (exn + unit) \<times> state" where
  "set_bcdecode_location e s bcdecode_path =
     (if bcdecode_path \<noteq> []
      then (case paths_setitem s ''bcdecode'' bcdecode_path of
              (Inl ex, s1) \<Rightarrow> (Inl ex, s1)
            | (Inr u, s1) \<Rightarrow>
                (case save_config e s1 of
                   (Inl ex, s2) \<Rightarrow> (Inl ex, s2)
                 | (Inr u', s2) \<Rightarrow>
                     (Inr (), log s2 (''bcdecode location set to: '' @ bcdecode_path))))
      else (Inr (), log s ''bcdecode executable not set. Please ensure bcdecode is installed.''))"

text \<open>A new session: a fresh parser, an empty log, and \<open>load_config\<close>.\<close>

definition new_session :: "filesystem \<Rightarrow> state" where
  "new_session f = \<lparr>fs = f, config = fresh_config, log_window = [], events = []\<rparr>"

subsection \<open>Host bridge\<close>

definition print_exc :: "state \<Rightarrow> exn \<Rightarrow> state" where
  "print_exc s ex = s\<lparr>events := events s @ [PrintExc ex]\<rparr>"

text \<open>The \<open>try\<close> block of \<open>import_to_shelf\<close>, then the method with its handler.\<close>

definition import_to_shelf_try :: "env \<Rightarrow> state \<Rightarrow> string \<Rightarrow> (exn + unit) \<times> state" where
  "import_to_shelf_try e s resource_path =
     (let name = basename resource_path;
          s1 = s\<lparr>events := events s @ [ImportResource resource_path TEXTURE name]\<rparr>
      in case import_session_resource e (events s) (fs s) resource_path TEXTURE name of
           Some ex \<Rightarrow> (Inl ex, s1)
         | None \<Rightarrow> (Inr (), log s1 (''Imported to shelf: '' @ resource_path)))"

definition import_to_shelf :: "env \<Rightarrow> state \<Rightarrow> string \<Rightarrow> (exn + unit) \<times> state" where
  "import_to_shelf e s resource_path =
     (case import_to_shelf_try e s resource_path of
        (Inl ex, s1) \<Rightarrow>
          (Inr (), log s1 (''Failed to import '' @ resource_path @ '' to shelf: '' @ snd ex))
      | (Inr u, s1) \<Rightarrow> (Inr (), s1))"

subsection \<open>DDS import workflow\<close>

definition output_png_of :: "string \<Rightarrow> string" where
  "output_png_of dds_file = splitext_root dds_file @ ''.png''"

definition output_alpha_png_of :: "string \<Rightarrow> string" where
  "output_alpha_png_of dds_file = splitext_root dds_file @ ''_alpha.png''"

text \<open>The \<open>try\<close> block of the loop body, for one selected file.\<close>

definition dds_try :: "env \<Rightarrow> state \<Rightarrow> string \<Rightarrow> string \<Rightarrow> (exn + unit) \<times> state" where
  "dds_try e s texconv_exe dds_file =
     (let output_png = output_png_of dds_file;
          output_alpha_png = output_alpha_png_of dds_file;
          s1 = log s (''Converting '' @ dds_file @ '' to PNG directly using texconv...'')
      in case convert_dds_to_png e s1 texconv_exe dds_file output_png of
           (Inl ex, s2) \<Rightarrow> (Inl ex, s2)
         | (Inr u, s2) \<Rightarrow>
             (case extract_alpha_channel s2 output_png output_alpha_png of
                (Inl ex, s3) \<Rightarrow> (Inl ex, s3)
              | (Inr extracted, s3) \<Rightarrow>
                  (case (if extracted
                         then (case remove_alpha_channel s3 output_png of
                                 (Inl ex, s4) \<Rightarrow> (Inl ex, s4)
                               | (Inr u', s4) \<Rightarrow>
                                   (Inr (), log s4 (''Alpha channel extracted to: ''
                                                      @ output_alpha_png)))
                         else (Inr (), log s3 (''No alpha channel found in: '' @ dds_file))) of
                     (Inl ex, s5) \<Rightarrow> (Inl ex, s5)
                   | (Inr u', s5) \<Rightarrow>
                       (let s6 = log s5 (''Converted to: '' @ output_png)
                        in case import_to_shelf e s6 output_png of
                             (Inl ex, s7) \<Rightarrow> (Inl ex, s7)
                           | (Inr u'', s7) \<Rightarrow>
                               if path_exists (fs s7) output_alpha_png
                               then import_to_shelf e s7 output_alpha_png
                               else (Inr (), s7)))))"

text \<open>One pass of the loop: the \<open>try\<close> block and its \<open>except Exception\<close> handler.\<close>

definition dds_iteration :: "env \<Rightarrow> state \<Rightarrow> string \<Rightarrow> string \<Rightarrow> (exn + unit) \<times> state" where
  "dds_iteration e s texconv_exe dds_file =
     (case dds_try e s texconv_exe dds_file of
        (Inl ex, s1) \<Rightarrow>
          (Inr (), print_exc (log s1 (''Failed to process '' @ dds_file @ '': '' @ snd ex)) ex)
      | (Inr u, s1) \<Rightarrow> (Inr (), s1))"

text \<open>The \<open>for\<close> loop: an exception that leaves a pass ends the loop.\<close>

fun dds_loop :: "env \<Rightarrow> state \<Rightarrow> string \<Rightarrow> string list \<Rightarrow> (exn + unit) \<times> state" where
  "dds_loop e s texconv_exe [] = (Inr (), s)"
| "dds_loop e s texconv_exe (dds_file # dds_files) =
     (case dds_iteration e s texconv_exe dds_file of
        (Inl ex, s1) \<Rightarrow> (Inl ex, s1)
      | (Inr u, s1) \<Rightarrow> dds_loop e s1 texconv_exe dds_files)"

text \<open>The handler of the "Import" button; \<open>dds_files\<close> is what the file dialog returned.\<close>

definition on_import_dds :: "env \<Rightarrow> state \<Rightarrow> string list \<Rightarrow> (exn + unit) \<times> state" where
  "on_import_dds e s dds_files =
     (if dds_files = []
      then (Inr (), log s ''No DDS files selected for import.'')
      else (case paths_get s ''texconv'' None of
              Inl ex \<Rightarrow> (Inl ex, s)
            | Inr None \<Rightarrow>
                (Inr (), log s (''Invalid or missing texconv executable. ''
                                  @ ''Please set it using the 'Set texconv Location' button.''))
            | Inr (Some texconv_exe) \<Rightarrow>
                if texconv_exe = [] \<or> \<not> isfile (fs s) texconv_exe
                then (Inr (), log s (''Invalid or missing texconv executable. ''
                                       @ ''Please set it using the 'Set texconv Location' button.''))
                else dds_loop e s texconv_exe dds_files))"

subsection \<open>BC5 decode workflow\<close>

definition bc5_abort_message :: string where
  "bc5_abort_message =
     ''Invalid or missing bcdecode executable. ''
       @ ''Please set it using the 'Set bcdecode Location' button.''"

text \<open>The \<open>try\<close> block of \<open>on_import_bc5\<close>.\<close>

definition bc5_try ::
  "env \<Rightarrow> state \<Rightarrow> string \<Rightarrow> string \<Rightarrow> string \<Rightarrow> (exn + unit) \<times> state" where
  "bc5_try e s bcdecode_exe bc5_input out_dds =
     (let s1 = log s (''Running bcdecode on '' @ bc5_input @ ''...'')
      in case run_bcdecode e s1 bcdecode_exe bc5_input out_dds of
           (Inl ex, s2) \<Rightarrow> (Inl ex, s2)
         | (Inr u, s2) \<Rightarrow>
             (let s3 = log s2 (''bcdecode successful:'' @ [newline] @ basename bc5_input
                                 @ '' -> '' @ out_dds);
                  s4 = show_message_box s3 ''Import Successful''
                         (''bcdecode => '' @ basename bc5_input @ [newline] @ ''-> '' @ out_dds)
              in import_to_shelf e s4 out_dds))"

text \<open>The handler of the "Decode and reconstruct" button; \<open>bc5_input\<close> and \<open>out_dds\<close>
  are what the two file dialogs returned, empty when the user cancelled.\<close>

definition on_import_bc5 :: "env \<Rightarrow> state \<Rightarrow> string \<Rightarrow> string \<Rightarrow> (exn + unit) \<times> state" where
  "on_import_bc5 e s bc5_input out_dds =
     (if bc5_input = []
      then (Inr (), show_message_box s ''Cancelled'' ''No BC5_SNORM input file selected.'')
      else if out_dds = []
      then (Inr (), show_message_box s ''Cancelled'' ''No output DDS file selected.'')
      else (case paths_get s ''bcdecode'' None of
              Inl ex \<Rightarrow> (Inl ex, s)
            | Inr None \<Rightarrow> (Inr (), log s bc5_abort_message)
            | Inr (Some bcdecode_exe) \<Rightarrow>
                if bcdecode_exe = [] \<or> \<not> isfile (fs s) bcdecode_exe
                then (Inr (), log s bc5_abort_message)
                else (case bc5_try e s bcdecode_exe bc5_input out_dds of
                        (Inl ex, s1) \<Rightarrow>
                          (Inr (), show_message_box
                                     (log (print_exc s1 ex)
                                        (''Error importing BC5_SNORM DDS: '' @ snd ex))
                                     ''Error Importing BC5_SNORM DDS'' (snd ex))
                      | (Inr u, s1) \<Rightarrow> (Inr (), s1))))"

section \<open>Observations and sample inputs\<close>

text \<open>What the started tool returned to each adapter.\<close>

definition texconv_result :: "env \<Rightarrow> state \<Rightarrow> string \<Rightarrow> string \<Rightarrow> string \<Rightarrow> exn + completed" where
  "texconv_result e s texconv_exe dds_file output_png =
     (let command = texconv_command texconv_exe dds_file output_png
      in fst (subprocess_run e
                (events s @ [Print (''Running texconv command: '' @ join '' '' command)])
                (fs s) command))"

definition bcdecode_result :: "env \<Rightarrow> state \<Rightarrow> string \<Rightarrow> string \<Rightarrow> string \<Rightarrow> exn + completed" where
  "bcdecode_result e s bcdecode_exe input_dds output_dds =
     fst (subprocess_run e (events s) (fs s) (bcdecode_cmd bcdecode_exe input_dds output_dds))"

text \<open>A world in which every started process gives the same result and leaves the files
  alone, the host accepts every import and every file can be written.\<close>

definition sample_config_file :: string where
  "sample_config_file = ''/plugins/DDS-Importer.ini''"

definition tool_env :: "(exn + completed) \<Rightarrow> env" where
  "tool_env r =
     \<lparr>subprocess_run = (\<lambda>evs f cmd. (r, f)),
      import_session_resource = (\<lambda>evs f p u n. None),
      open_for_writing = (\<lambda>f p. None),
      CONFIG_FILE = sample_config_file\<rparr>"

definition exit_with :: "int \<Rightarrow> completed" where
  "exit_with code = \<lparr>returncode = code, stdout = '' written 0 files '', stderr = '' bad header''\<rparr>"

text \<open>An image as Pillow builds it: one plane per band of its mode, one sample per pixel.\<close>

definition wf_image :: "image \<Rightarrow> bool" where
  "wf_image img =
     (length (planes img) = length (getbands (mode img))
      \<and> list_all (\<lambda>plane. length plane = fst (size img) * snd (size img)) (planes img))"

text \<open>What the host answers when \<open>import_to_shelf\<close> is called in a state, and the line
  the method logs for it.\<close>

definition host_answer :: "env \<Rightarrow> state \<Rightarrow> string \<Rightarrow> exn option" where
  "host_answer e s resource_path =
     import_session_resource e (events s) (fs s) resource_path TEXTURE (basename resource_path)"

definition shelf_line :: "env \<Rightarrow> state \<Rightarrow> string \<Rightarrow> string" where
  "shelf_line e s resource_path =
     (case host_answer e s resource_path of
        None \<Rightarrow> ''Imported to shelf: '' @ resource_path
      | Some ex \<Rightarrow> ''Failed to import '' @ resource_path @ '' to shelf: '' @ snd ex)"

text \<open>A world whose tools succeed without writing anything and whose host answers every
  import the same way.\<close>

definition host_env :: "exn option \<Rightarrow> env" where
  "host_env r =
     \<lparr>subprocess_run = (\<lambda>evs f cmd. (Inr \<lparr>returncode = 0, stdout = [], stderr = []\<rparr>, f)),
      import_session_resource = (\<lambda>evs f p u n. r),
      open_for_writing = (\<lambda>f p. None),
      CONFIG_FILE = sample_config_file\<rparr>"

definition rgba_2x1 :: image where
  "rgba_2x1 = \<lparr>mode = Mode_RGBA, size = (2, 1),
               planes = [[10, 20], [30, 40], [50, 60], [255, 128]]\<rparr>"

definition rgb_2x1 :: image where
  "rgb_2x1 = \<lparr>mode = Mode_RGB, size = (2, 1), planes = [[10, 20], [30, 40], [50, 60]]\<rparr>"

text \<open>The commands of the processes started, in order.\<close>

fun started :: "event list \<Rightarrow> string list list" where
  "started [] = []"
| "started (RunProcess cmd # evs) = cmd # started evs"
| "started (ev # evs) = started evs"

text \<open>The file each started process was given to convert: the last argument of its command.\<close>

definition conversions :: "event list \<Rightarrow> string list" where
  "conversions evs = map last (started evs)"

text \<open>The paths handed to the host's import call, in order.\<close>

fun imported :: "event list \<Rightarrow> string list" where
  "imported [] = []"
| "imported (ImportResource p u n # evs) = p # imported evs"
| "imported (ev # evs) = imported evs"

text \<open>The line the loop of \<open>on_import_dds\<close> logs when a file's pipeline raises, and the lines
  of that form in a log.\<close>

definition is_failure_line :: "string \<Rightarrow> bool" where
  "is_failure_line l = (take 18 l = ''Failed to process '')"

definition failure_lines :: "string list \<Rightarrow> string list" where
  "failure_lines ls = filter is_failure_line ls"

definition failure_line :: "string \<Rightarrow> exn \<Rightarrow> string" where
  "failure_line dds_file ex = ''Failed to process '' @ dds_file @ '': '' @ snd ex"

text \<open>The conversion step of one file's pipeline: its result, the state it leaves, and
  the result of the extraction step that follows it.\<close>

definition converting_line :: "string \<Rightarrow> string" where
  "converting_line dds_file = ''Converting '' @ dds_file @ '' to PNG directly using texconv...''"

definition conversion_result :: "env \<Rightarrow> state \<Rightarrow> string \<Rightarrow> string \<Rightarrow> exn + unit" where
  "conversion_result e s texconv_exe dds_file =
     fst (convert_dds_to_png e (log s (converting_line dds_file)) texconv_exe dds_file
            (output_png_of dds_file))"

definition after_conversion :: "env \<Rightarrow> state \<Rightarrow> string \<Rightarrow> string \<Rightarrow> state" where
  "after_conversion e s texconv_exe dds_file =
     snd (convert_dds_to_png e (log s (converting_line dds_file)) texconv_exe dds_file
            (output_png_of dds_file))"

definition extraction_result :: "env \<Rightarrow> state \<Rightarrow> string \<Rightarrow> string \<Rightarrow> exn + bool" where
  "extraction_result e s texconv_exe dds_file =
     fst (extract_alpha_channel (after_conversion e s texconv_exe dds_file)
            (output_png_of dds_file) (output_alpha_png_of dds_file))"

text \<open>The result of the step that strips the alpha channel, in the state the extraction
  left.\<close>

definition removal_result :: "env \<Rightarrow> state \<Rightarrow> string \<Rightarrow> string \<Rightarrow> exn + unit" where
  "removal_result e s texconv_exe dds_file =
     fst (remove_alpha_channel
            (snd (extract_alpha_channel (after_conversion e s texconv_exe dds_file)
                    (output_png_of dds_file) (output_alpha_png_of dds_file)))
            (output_png_of dds_file))"

text \<open>The exception of the first step that raises in the pipeline of one file, if any: the
  conversion, then the extraction, then, when an alpha channel was extracted, the
  stripping. The imports that follow do not raise.\<close>

definition step_failure :: "env \<Rightarrow> state \<Rightarrow> string \<Rightarrow> string \<Rightarrow> exn option" where
  "step_failure e s texconv_exe dds_file =
     (case conversion_result e s texconv_exe dds_file of
        Inl ex \<Rightarrow> Some ex
      | Inr u \<Rightarrow>
          (case extraction_result e s texconv_exe dds_file of
             Inl ex \<Rightarrow> Some ex
           | Inr extracted \<Rightarrow>
               if extracted
               then (case removal_result e s texconv_exe dds_file of
                       Inl ex \<Rightarrow> Some ex
                     | Inr u' \<Rightarrow> None)
               else None))"

text \<open>The step failures of the selected files, each pipeline started in the state the
  passes before it left.\<close>

fun pipeline_failures :: "env \<Rightarrow> state \<Rightarrow> string \<Rightarrow> string list \<Rightarrow> exn option list" where
  "pipeline_failures e s texconv_exe [] = []"
| "pipeline_failures e s texconv_exe (dds_file # dds_files) =
     step_failure e s texconv_exe dds_file
       # pipeline_failures e (snd (dds_iteration e s texconv_exe dds_file)) texconv_exe dds_files"

text \<open>One failure line for every file with a step that raised, none for the others.\<close>

fun expected_failure_lines :: "string list \<Rightarrow> exn option list \<Rightarrow> string list" where
  "expected_failure_lines (dds_file # dds_files) (Some ex # failures) =
     failure_line dds_file ex # expected_failure_lines dds_files failures"
| "expected_failure_lines (dds_file # dds_files) (None # failures) =
     expected_failure_lines dds_files failures"
| "expected_failure_lines _ _ = []"

text \<open>The decode tool is not usable: the option is absent, empty, or names no existing file.\<close>

definition bc5_tool_missing :: "state \<Rightarrow> bool" where
  "bc5_tool_missing s =
     (case paths_get s ''bcdecode'' None of
        Inl ex \<Rightarrow> False
      | Inr None \<Rightarrow> True
      | Inr (Some bcdecode_exe) \<Rightarrow> bcdecode_exe = [] \<or> \<not> isfile (fs s) bcdecode_exe)"

text \<open>In a trace, every import is preceded by the "Import Successful" dialog.\<close>

fun dialog_before_import :: "bool \<Rightarrow> event list \<Rightarrow> bool" where
  "dialog_before_import shown [] = True"
| "dialog_before_import shown (MessageBox title txt # evs) =
     dialog_before_import (shown \<or> title = ''Import Successful'') evs"
| "dialog_before_import shown (ImportResource p u n # evs) =
     (shown \<and> dialog_before_import shown evs)"
| "dialog_before_import shown (ev # evs) = dialog_before_import shown evs"

text \<open>The lines and the dialog of a successful decode.\<close>

definition bc5_running_line :: "string \<Rightarrow> string" where
  "bc5_running_line bc5_input = ''Running bcdecode on '' @ bc5_input @ ''...''"

definition bc5_success_line :: "string \<Rightarrow> string \<Rightarrow> string" where
  "bc5_success_line bc5_input out_dds =
     ''bcdecode successful:'' @ [newline] @ basename bc5_input @ '' -> '' @ out_dds"

definition bc5_success_box :: "string \<Rightarrow> string \<Rightarrow> event" where
  "bc5_success_box bc5_input out_dds =
     MessageBox ''Import Successful''
       (''bcdecode => '' @ basename bc5_input @ [newline] @ ''-> '' @ out_dds)"

definition decode_result :: "env \<Rightarrow> state \<Rightarrow> string \<Rightarrow> string \<Rightarrow> string \<Rightarrow> exn + unit" where
  "decode_result e s bcdecode_exe bc5_input out_dds =
     fst (run_bcdecode e (log s (bc5_running_line bc5_input)) bcdecode_exe bc5_input out_dds)"

text \<open>The state in which \<open>on_import_bc5\<close> calls \<open>import_to_shelf\<close>.\<close>

definition before_shelf_import :: "env \<Rightarrow> state \<Rightarrow> string \<Rightarrow> string \<Rightarrow> string \<Rightarrow> state" where
  "before_shelf_import e s bcdecode_exe bc5_input out_dds =
     show_message_box
       (log (snd (run_bcdecode e (log s (bc5_running_line bc5_input)) bcdecode_exe
                    bc5_input out_dds))
            (bc5_success_line bc5_input out_dds))
       ''Import Successful''
       (''bcdecode => '' @ basename bc5_input @ [newline] @ ''-> '' @ out_dds)"

text \<open>Sample sessions: a parser whose section \<open>Paths\<close> holds the given options, over
  given files.\<close>

definition paths_config :: "string dict \<Rightarrow> config_parser" where
  "paths_config opts = \<lparr>sections = [(''Paths'', opts)], defaults = []\<rparr>"

definition session_with :: "filesystem \<Rightarrow> string dict \<Rightarrow> state" where
  "session_with f opts = \<lparr>fs = f, config = paths_config opts, log_window = [], events = []\<rparr>"

definition texconv_session :: "filesystem \<Rightarrow> state" where
  "texconv_session f =
     session_with (f(''/tools/texconv.exe'' \<mapsto> File Blob)) [(''texconv'', ''/tools/texconv.exe'')]"

definition bcdecode_session :: state where
  "bcdecode_session =
     session_with [''/tools/bcdecode.exe'' \<mapsto> File Blob] [(''bcdecode'', ''/tools/bcdecode.exe'')]"

text \<open>A world whose converter fails on \<open>/t/a.dds\<close> and writes an \<open>RGBA\<close> image
  \<open>/t/b.png\<close> otherwise.\<close>

definition flaky_env :: env where
  "flaky_env =
     \<lparr>subprocess_run =
        (\<lambda>evs f cmd. if last cmd = ''/t/a.dds'' then (Inr (exit_with 1), f)
                      else (Inr (exit_with 0), f(''/t/b.png'' \<mapsto> File (ImageData rgba_2x1)))),
      import_session_resource = (\<lambda>evs f p u n. None),
      open_for_writing = (\<lambda>f p. None),
      CONFIG_FILE = sample_config_file\<rparr>"

definition gray_2x1 :: image where
  "gray_2x1 = \<lparr>mode = Mode_L, size = (2, 1), planes = [[7, 9]]\<rparr>"

text \<open>A world whose converter writes an \<open>RGB\<close> image \<open>/t/x.png\<close>, and a session in
  which a file \<open>/t/x_alpha.png\<close> is already there.\<close>

definition stale_env :: env where
  "stale_env =
     \<lparr>subprocess_run =
        (\<lambda>evs f cmd. (Inr (exit_with 0), f(''/t/x.png'' \<mapsto> File (ImageData rgb_2x1)))),
      import_session_resource = (\<lambda>evs f p u n. None),
      open_for_writing = (\<lambda>f p. None),
      CONFIG_FILE = sample_config_file\<rparr>"

definition stale_session :: state where
  "stale_session = texconv_session [''/t/x_alpha.png'' \<mapsto> File (ImageData gray_2x1)]"

text \<open>The section \<open>Paths\<close> that \<open>create_default_config\<close> sets.\<close>

definition default_paths :: "string dict" where
  "default_paths = [(''texconv'', default_texconv), (''bcdecode'', default_bcdecode)]"

text \<open>The raw value the settings file holds for an option of section \<open>Paths\<close>, as a
  reader finds it.\<close>

definition settings_file_option :: "env \<Rightarrow> state \<Rightarrow> string \<Rightarrow> string option" where
  "settings_file_option e s option =
     (case fs s (CONFIG_FILE e) of
        Some (File (Text text)) \<Rightarrow>
          (case parse_text text of
             Inr t \<Rightarrow> (case map_of t ''Paths'' of Some opts \<Rightarrow> map_of opts option | None \<Rightarrow> None)
           | Inl ex \<Rightarrow> None)
      | _ \<Rightarrow> None)"

text \<open>What a later session reads: a new parser, loaded from the files as they are.\<close>

definition reloaded :: "env \<Rightarrow> state \<Rightarrow> state" where
  "reloaded e s = snd (load_config e (new_session (fs s)))"

text \<open>A world in which no file can be opened for writing.\<close>

definition readonly_env :: env where
  "readonly_env =
     \<lparr>subprocess_run = (\<lambda>evs f cmd. (Inr \<lparr>returncode = 0, stdout = [], stderr = []\<rparr>, f)),
      import_session_resource = (\<lambda>evs f p u n. None),
      open_for_writing = (\<lambda>f p. Some (PermissionError, ''[Errno 13] Permission denied'')),
      CONFIG_FILE = sample_config_file\<rparr>"


text \<open>
  A value that the settings file holds on one line, as it is: it has no line break and
  no white space at either end. An option name that a line of the file holds as it is:
  it is not empty, is in lower case, has no white space and no delimiter in it, and does
  not start like a section header or a comment. A section whose names differ and are all
  of that kind, with values of that kind.
\<close>

definition plain_value :: "string \<Rightarrow> bool" where
  "plain_value v = (newline \<notin> set v \<and> carriage_return \<notin> set v \<and> strip v = v)"

definition plain_key :: "string \<Rightarrow> bool" where
  "plain_key k =
     (k \<noteq> [] \<and> list_all (\<lambda>c. \<not> is_space c \<and> \<not> is_delimiter c) k
      \<and> hd k \<notin> set ''[#;'' \<and> optionxform k = k)"

definition plain_options :: "string dict \<Rightarrow> bool" where
  "plain_options opts =
     (distinct (map fst opts) \<and> list_all (\<lambda>(k, v). plain_key k \<and> plain_value v) opts)"

text \<open>The line that \<open>write\<close> prints for an option with such a value, without the newline
  that ends it, and the state of the reader after the header of section \<open>Paths\<close> and
  the lines of the given options, the last of them with the given name.\<close>

definition option_line :: "string \<times> string \<Rightarrow> string" where
  "option_line kv = fst kv @ '' = '' @ snd kv"

definition reader_after :: "string dict \<Rightarrow> string \<Rightarrow> reader" where
  "reader_after opts name =
     \<lparr>table = [(''Paths'', map (\<lambda>kv. (fst kv, [snd kv])) opts)], cursect = Some ''Paths'',
      optname = name, indent_level = 0, sections_added = [''Paths''],
      options_added = map (\<lambda>kv. (''Paths'', fst kv)) opts, parse_error = False\<rparr>"

section \<open>Properties\<close>


subsection \<open>Converter adapters\<close>

text \<open>
  Claim C8. Each adapter turns the outcome of the process into success or a raised error.
  The DDS to PNG adapter raises a \<open>RuntimeError\<close> that names the file and carries the
  exit code and the captured standard error and standard output (each stripped of
  surrounding white space) when the exit code is not zero, and one that carries the text
  of the launch failure when the process cannot be started. The BC5 adapter raises a
  \<open>RuntimeError\<close> with the exit code and the captured standard error when the exit code
  is not zero. Both return normally when the exit code is zero.
\<close>

theorem adapters_translate_exit_status:
  "(\<forall>r. texconv_result e s exe dds out = Inr r \<and> returncode r \<noteq> 0 \<longrightarrow>
      fst (convert_dds_to_png e s exe dds out) =
        Inl (RuntimeError, ''Failed to convert '' @ dds @ '' to PNG: ''
               @ ''texconv failed with code '' @ str_int (returncode r) @ '':''
               @ [newline] @ strip (stderr r) @ [newline] @ strip (stdout r)))
   \<and> (\<forall>ex. texconv_result e s exe dds out = Inl ex \<longrightarrow>
      fst (convert_dds_to_png e s exe dds out) =
        Inl (RuntimeError, ''Failed to convert '' @ dds @ '' to PNG: '' @ snd ex))
   \<and> (\<forall>r. texconv_result e s exe dds out = Inr r \<and> returncode r = 0 \<longrightarrow>
      fst (convert_dds_to_png e s exe dds out) = Inr ())
   \<and> (\<forall>r. bcdecode_result e s bexe i out' = Inr r \<and> returncode r \<noteq> 0 \<longrightarrow>
      fst (run_bcdecode e s bexe i out') =
        Inl (RuntimeError, ''bcdecode failed with code '' @ str_int (returncode r)
               @ [newline] @ stderr r))
   \<and> (\<forall>r. bcdecode_result e s bexe i out' = Inr r \<and> returncode r = 0 \<longrightarrow>
      fst (run_bcdecode e s bexe i out') = Inr ())"
  by (auto simp: convert_dds_to_png_def run_bcdecode_def texconv_result_def bcdecode_result_def
        Let_def split: prod.splits sum.splits)

theorem adapters_translate_exit_status_witness:
  "texconv_result (tool_env (Inr (exit_with 1))) (new_session Map.empty)
       ''/tools/texconv.exe'' ''/t/x.dds'' ''/t/x.png'' = Inr (exit_with 1)
   \<and> returncode (exit_with 1) \<noteq> 0
   \<and> fst (convert_dds_to_png (tool_env (Inr (exit_with 1))) (new_session Map.empty)
             ''/tools/texconv.exe'' ''/t/x.dds'' ''/t/x.png'') =
       Inl (RuntimeError, ''Failed to convert /t/x.dds to PNG: texconv failed with code 1:''
              @ [newline] @ ''bad header'' @ [newline] @ ''written 0 files'')
   \<and> fst (run_bcdecode (tool_env (Inr (exit_with 1))) (new_session Map.empty)
             ''/tools/bcdecode.exe'' ''/t/n.dds'' ''/t/out.dds'') =
       Inl (RuntimeError, ''bcdecode failed with code 1'' @ [newline] @ '' bad header'')
   \<and> fst (convert_dds_to_png (tool_env (Inl (FileNotFoundError, ''[WinError 2]'')))
             (new_session Map.empty) ''/tools/texconv.exe'' ''/t/x.dds'' ''/t/x.png'') =
       Inl (RuntimeError, ''Failed to convert /t/x.dds to PNG: [WinError 2]'')
   \<and> fst (convert_dds_to_png (tool_env (Inr (exit_with 0))) (new_session Map.empty)
             ''/tools/texconv.exe'' ''/t/x.dds'' ''/t/x.png'') = Inr ()
   \<and> fst (run_bcdecode (tool_env (Inr (exit_with 0))) (new_session Map.empty)
             ''/tools/bcdecode.exe'' ''/t/n.dds'' ''/t/out.dds'') = Inr ()"
  using adapters_translate_exit_status [of "tool_env (Inr (exit_with 1))" "new_session Map.empty"
                     "''/tools/texconv.exe''" "''/t/x.dds''" "''/t/x.png''"
                     "''/tools/bcdecode.exe''" "''/t/n.dds''" "''/t/out.dds''"]
        adapters_translate_exit_status [of "tool_env (Inl (FileNotFoundError, ''[WinError 2]''))" "new_session Map.empty"
                     "''/tools/texconv.exe''" "''/t/x.dds''" "''/t/x.png''"
                     "''/tools/bcdecode.exe''" "''/t/n.dds''" "''/t/out.dds''"]
        adapters_translate_exit_status [of "tool_env (Inr (exit_with 0))" "new_session Map.empty"
                     "''/tools/texconv.exe''" "''/t/x.dds''" "''/t/x.png''"
                     "''/tools/bcdecode.exe''" "''/t/n.dds''" "''/t/out.dds''"]
  by (simp add: texconv_result_def bcdecode_result_def tool_env_def exit_with_def
        str_int_def str_nat.simps digit_char_def strip_def lstrip_def rstrip_def is_space_def)

subsection \<open>Effects of logging\<close>

lemma log_simps [simp]:
  "fs (log s m) = fs s" "config (log s m) = config s"
  "log_window (log s m) = log_window s @ [m]" "events (log s m) = events s @ [Print m]"
  by (simp_all add: log_def log_to_painter_console_def)

subsection \<open>Host bridge\<close>

text \<open>
  Claim C9. For every path and every answer of the host, \<open>import_to_shelf\<close> returns
  normally: a failure of the host's import call is caught and logged as one line and
  never reaches the caller. The method leaves the files and the configuration as they
  are and starts no process, so nothing the conversion produced is undone or redone; the
  caller goes on exactly as after a successful import.
\<close>

theorem import_to_shelf_contains_failure:
  "import_to_shelf e s resource_path =
     (Inr (), s\<lparr>log_window := log_window s @ [shelf_line e s resource_path],
               events := events s @ [ImportResource resource_path TEXTURE (basename resource_path),
                                     Print (shelf_line e s resource_path)]\<rparr>)
   \<and> (\<forall>ex. host_answer e s resource_path = Some ex \<longrightarrow>
          shelf_line e s resource_path =
            ''Failed to import '' @ resource_path @ '' to shelf: '' @ snd ex)"
  by (simp add: import_to_shelf_def import_to_shelf_try_def shelf_line_def host_answer_def
        log_def log_to_painter_console_def Let_def split: option.splits)

theorem import_to_shelf_contains_failure_witness:
  "host_answer (host_env (Some (ValueError, ''bad resource''))) (new_session Map.empty) ''/t/x.png''
     = Some (ValueError, ''bad resource'')
   \<and> import_to_shelf (host_env (Some (ValueError, ''bad resource''))) (new_session Map.empty)
       ''/t/x.png'' =
     (Inr (), \<lparr>fs = Map.empty, config = fresh_config,
               log_window = [''Failed to import /t/x.png to shelf: bad resource''],
               events = [ImportResource ''/t/x.png'' TEXTURE ''x.png'',
                         Print ''Failed to import /t/x.png to shelf: bad resource'']\<rparr>)"
  using import_to_shelf_contains_failure
          [of "host_env (Some (ValueError, ''bad resource''))" "new_session Map.empty" "''/t/x.png''"]
  by (simp add: shelf_line_def host_answer_def host_env_def new_session_def basename_def
        slash_def)

subsection \<open>Image post-processing\<close>

text \<open>
  Claim C3. On an image with no band named \<open>A\<close> (a plain three-channel \<open>RGB\<close> image,
  for one), \<open>extract_alpha_channel\<close> returns \<open>False\<close> and writes nothing. On a
  four-channel \<open>RGBA\<close> image it returns \<open>True\<close> and writes, at the output path, a
  single-channel mode \<open>L\<close> image of the same size whose samples are those of the
  source's alpha band.
\<close>

theorem extract_alpha_channel_result:
  assumes "fs s input_png = Some (File (ImageData img))"
  shows "(''A'' \<notin> set (getbands (mode img)) \<longrightarrow>
            extract_alpha_channel s input_png output_alpha_png = (Inr False, s))
       \<and> (mode img = Mode_RGBA \<and> wf_image img \<longrightarrow>
            extract_alpha_channel s input_png output_alpha_png =
              (Inr True,
               s\<lparr>fs := (fs s)(output_alpha_png \<mapsto>
                    File (ImageData \<lparr>mode = Mode_L, size = size img,
                                      planes = [planes img ! 3]\<rparr>))\<rparr>))"
proof (intro conjI impI)
  assume "''A'' \<notin> set (getbands (mode img))"
  moreover from this have "mode img \<noteq> Mode_RGBA" "mode img \<noteq> Mode_LA"
    by auto
  ultimately show "extract_alpha_channel s input_png output_alpha_png = (Inr False, s)"
    using assms by (simp add: extract_alpha_channel_def image_open_def)
next
  assume "mode img = Mode_RGBA \<and> wf_image img"
  then show "extract_alpha_channel s input_png output_alpha_png =
      (Inr True,
       s\<lparr>fs := (fs s)(output_alpha_png \<mapsto>
            File (ImageData \<lparr>mode = Mode_L, size = size img, planes = [planes img ! 3]\<rparr>))\<rparr>)"
    using assms
    by (simp add: extract_alpha_channel_def image_open_def getchannel_def image_save_def
          wf_image_def eval_nat_numeral)
qed

theorem extract_alpha_channel_result_witness:
  "extract_alpha_channel (new_session [''/t/x.png'' \<mapsto> File (ImageData rgb_2x1)])
       ''/t/x.png'' ''/t/x_alpha.png'' =
     (Inr False, new_session [''/t/x.png'' \<mapsto> File (ImageData rgb_2x1)])
   \<and> extract_alpha_channel (new_session [''/t/x.png'' \<mapsto> File (ImageData rgba_2x1)])
       ''/t/x.png'' ''/t/x_alpha.png'' =
     (Inr True, new_session [''/t/x.png'' \<mapsto> File (ImageData rgba_2x1),
                             ''/t/x_alpha.png'' \<mapsto>
                               File (ImageData \<lparr>mode = Mode_L, size = (2, 1),
                                                 planes = [[255, 128]]\<rparr>)])"
  using extract_alpha_channel_result
          [of "new_session [''/t/x.png'' \<mapsto> File (ImageData rgb_2x1)]" "''/t/x.png''" rgb_2x1
              "''/t/x_alpha.png''"]
        extract_alpha_channel_result
          [of "new_session [''/t/x.png'' \<mapsto> File (ImageData rgba_2x1)]" "''/t/x.png''" rgba_2x1
              "''/t/x_alpha.png''"]
  by (simp add: new_session_def rgb_2x1_def rgba_2x1_def wf_image_def)

text \<open>
  Claim C4. \<open>remove_alpha_channel\<close> is idempotent on a file that holds an \<open>RGBA\<close>
  image: the first application rewrites the file as the three-channel \<open>RGB\<close> image,
  and a second application finds a mode other than \<open>RGBA\<close> and changes nothing, so
  twice gives the same file contents as once.
\<close>

theorem remove_alpha_channel_idempotent:
  assumes "fs s input_png = Some (File (ImageData img))" and "mode img = Mode_RGBA"
  shows "remove_alpha_channel s input_png =
           (Inr (), s\<lparr>fs := (fs s)(input_png \<mapsto> File (ImageData (convert_RGB img)))\<rparr>)
       \<and> mode (convert_RGB img) = Mode_RGB
       \<and> remove_alpha_channel (snd (remove_alpha_channel s input_png)) input_png =
           (Inr (), snd (remove_alpha_channel s input_png))"
  using assms
  by (simp add: remove_alpha_channel_def image_open_def image_save_def convert_RGB_def)

theorem remove_alpha_channel_idempotent_witness:
  "remove_alpha_channel (new_session [''/t/x.png'' \<mapsto> File (ImageData rgba_2x1)]) ''/t/x.png'' =
     (Inr (), new_session [''/t/x.png'' \<mapsto> File (ImageData rgb_2x1)])
   \<and> remove_alpha_channel
         (snd (remove_alpha_channel
                 (new_session [''/t/x.png'' \<mapsto> File (ImageData rgba_2x1)]) ''/t/x.png''))
         ''/t/x.png'' =
     (Inr (), new_session [''/t/x.png'' \<mapsto> File (ImageData rgb_2x1)])"
  using remove_alpha_channel_idempotent
          [of "new_session [''/t/x.png'' \<mapsto> File (ImageData rgba_2x1)]" "''/t/x.png''" rgba_2x1]
  by (auto simp: new_session_def rgb_2x1_def rgba_2x1_def convert_RGB_def)

subsection \<open>Effects of the steps\<close>

lemma show_message_box_simps [simp]:
  "fs (show_message_box s t x) = fs s" "config (show_message_box s t x) = config s"
  "log_window (show_message_box s t x) = log_window s"
  "events (show_message_box s t x) = events s @ [MessageBox t x]"
  by (simp_all add: show_message_box_def)

lemma print_exc_simps [simp]:
  "fs (print_exc s ex) = fs s" "config (print_exc s ex) = config s"
  "log_window (print_exc s ex) = log_window s"
  "events (print_exc s ex) = events s @ [PrintExc ex]"
  by (simp_all add: print_exc_def)

lemma started_append [simp]: "started (xs @ ys) = started xs @ started ys"
  by (induction xs rule: started.induct) simp_all

lemma imported_append [simp]: "imported (xs @ ys) = imported xs @ imported ys"
  by (induction xs rule: imported.induct) simp_all

lemma convert_effect [simp]:
  "events (snd (convert_dds_to_png e s exe f out)) =
     events s @ [Print (''Running texconv command: '' @ join '' '' (texconv_command exe f out)),
                 RunProcess (texconv_command exe f out)]"
  "log_window (snd (convert_dds_to_png e s exe f out)) = log_window s"
  "config (snd (convert_dds_to_png e s exe f out)) = config s"
  by (simp_all add: convert_dds_to_png_def Let_def split: prod.splits sum.splits)

lemma run_bcdecode_effect [simp]:
  "events (snd (run_bcdecode e s exe i out)) = events s @ [RunProcess (bcdecode_cmd exe i out)]"
  "log_window (snd (run_bcdecode e s exe i out)) = log_window s"
  "config (snd (run_bcdecode e s exe i out)) = config s"
  by (simp_all add: run_bcdecode_def Let_def split: prod.splits sum.splits)

lemma extract_effect [simp]:
  "events (snd (extract_alpha_channel s i out)) = events s"
  "log_window (snd (extract_alpha_channel s i out)) = log_window s"
  "config (snd (extract_alpha_channel s i out)) = config s"
  by (simp_all add: extract_alpha_channel_def Let_def split: prod.splits sum.splits)

lemma remove_effect [simp]:
  "events (snd (remove_alpha_channel s i)) = events s"
  "log_window (snd (remove_alpha_channel s i)) = log_window s"
  "config (snd (remove_alpha_channel s i)) = config s"
  by (simp_all add: remove_alpha_channel_def Let_def split: prod.splits sum.splits)

lemma import_effect [simp]:
  "fst (import_to_shelf e s p) = Inr ()"
  "events (snd (import_to_shelf e s p)) =
     events s @ [ImportResource p TEXTURE (basename p), Print (shelf_line e s p)]"
  "log_window (snd (import_to_shelf e s p)) = log_window s @ [shelf_line e s p]"
  "config (snd (import_to_shelf e s p)) = config s"
  "fs (snd (import_to_shelf e s p)) = fs s"
  by (simp_all add: import_to_shelf_def import_to_shelf_try_def shelf_line_def host_answer_def Let_def
        split: option.splits)

lemma failure_lines_simps [simp]:
  "failure_lines [] = []"
  "failure_lines (l # ls) = (if is_failure_line l then l # failure_lines ls else failure_lines ls)"
  "failure_lines (xs @ ys) = failure_lines xs @ failure_lines ys"
  by (simp_all add: failure_lines_def)

lemma is_failure_line_by_prefix:
  "\<not> is_failure_line (''Converting '' @ x)"
  "\<not> is_failure_line (''Alpha channel extracted to: '' @ x)"
  "\<not> is_failure_line (''No alpha channel found in: '' @ x)"
  "\<not> is_failure_line (''Converted to: '' @ x)"
  "\<not> is_failure_line (''Imported to shelf: '' @ x)"
  "\<not> is_failure_line (''Failed to import '' @ x)"
  "\<not> is_failure_line ''No DDS files selected for import.''"
  "is_failure_line (''Failed to process '' @ x)"
  by (simp_all add: is_failure_line_def)

lemmas is_failure_line_literal [simp] = is_failure_line_by_prefix [simplified]

lemma shelf_line_not_failure [simp]: "\<not> is_failure_line (shelf_line e s p)"
  by (simp add: shelf_line_def split: option.splits)

lemma failure_line_is_failure [simp]: "is_failure_line (failure_line f ex)"
  by (simp add: failure_line_def)

lemma last_texconv_command [simp]: "last (texconv_command exe f out) = f"
  by (simp add: texconv_command_def)

lemma png_names_differ [simp]: "output_png_of f \<noteq> output_alpha_png_of f"
  by (simp add: output_png_of_def output_alpha_png_of_def)

lemmas eval_defs =
  dds_try_def dds_iteration_def on_import_dds_def convert_dds_to_png_def texconv_command_def
  extract_alpha_channel_def remove_alpha_channel_def image_open_def image_save_def getchannel_def
  convert_RGB_def import_to_shelf_def import_to_shelf_try_def log_def log_to_painter_console_def
  print_exc_def output_png_of_def output_alpha_png_of_def splitext_root_def basename_def
  dirname_def path_head_def slash_def path_exists_def isfile_def paths_get_def parser_getitem_def
  proxy_get_def before_get_def interpolate_some.simps MAX_INTERPOLATION_DEPTH_def percent_def
  DEFAULTSECT_def optionxform_def lower_char_def session_with_def paths_config_def
  texconv_session_def exit_with_def str_int_def str_nat.simps digit_char_def strip_def
  lstrip_def rstrip_def is_space_def newline_def Let_def

subsection \<open>DDS import workflow\<close>

lemma dds_try_started:
  "started (events (snd (dds_try e s exe f))) =
     started (events s) @ [texconv_command exe f (output_png_of f)]"
  by (simp add: dds_try_def Let_def split_beta split: sum.splits)

lemma dds_try_failure_lines:
  "failure_lines (log_window (snd (dds_try e s exe f))) = failure_lines (log_window s)"
  by (simp add: dds_try_def Let_def split_beta split: sum.splits)

lemma dds_iteration_effect:
  "fst (dds_iteration e s exe f) = Inr ()"
  "started (events (snd (dds_iteration e s exe f))) =
     started (events s) @ [texconv_command exe f (output_png_of f)]"
  "failure_lines (log_window (snd (dds_iteration e s exe f))) =
     failure_lines (log_window s)
       @ (case fst (dds_try e s exe f) of Inl ex \<Rightarrow> [failure_line f ex] | Inr u \<Rightarrow> [])"
  using dds_try_started [of e s exe f] dds_try_failure_lines [of e s exe f]
  by (auto simp: dds_iteration_def print_exc_def failure_line_def
        split: prod.splits sum.splits)

lemma dds_loop_effect:
  "fst (dds_loop e s exe files) = Inr ()
   \<and> started (events (snd (dds_loop e s exe files))) =
       started (events s) @ map (\<lambda>f. texconv_command exe f (output_png_of f)) files"
proof (induction files arbitrary: s)
  case Nil
  show ?case by simp
next
  case (Cons f files)
  obtain s1 where it: "dds_iteration e s exe f = (Inr (), s1)"
    using dds_iteration_effect(1) [of e s exe f] by (cases "dds_iteration e s exe f") simp
  from it have s1: "s1 = snd (dds_iteration e s exe f)" by simp
  show ?case
    using Cons.IH [of s1] dds_iteration_effect(2) [of e s exe f] it
    by (auto simp: s1 [symmetric])
qed

lemma dds_try_result:
  "fst (dds_try e s exe f) =
     (case step_failure e s exe f of Some ex \<Rightarrow> Inl ex | None \<Rightarrow> Inr ())"
  by (simp add: dds_try_def step_failure_def conversion_result_def extraction_result_def
        removal_result_def after_conversion_def converting_line_def Let_def split_beta
        split: sum.splits)

lemma dds_iteration_failure_lines:
  "failure_lines (log_window (snd (dds_iteration e s exe f))) =
     failure_lines (log_window s)
       @ (case step_failure e s exe f of Some ex \<Rightarrow> [failure_line f ex] | None \<Rightarrow> [])"
  using dds_iteration_effect(3) [of e s exe f]
  by (simp add: dds_try_result split: option.splits)

lemma dds_loop_failure_lines:
  "failure_lines (log_window (snd (dds_loop e s exe files))) =
     failure_lines (log_window s)
       @ expected_failure_lines files (pipeline_failures e s exe files)"
proof (induction files arbitrary: s)
  case Nil
  show ?case by simp
next
  case (Cons f files)
  obtain s1 where it: "dds_iteration e s exe f = (Inr (), s1)"
    using dds_iteration_effect(1) [of e s exe f] by (cases "dds_iteration e s exe f") simp
  from it have s1: "s1 = snd (dds_iteration e s exe f)" by simp
  show ?case
    using Cons.IH [of s1] dds_iteration_failure_lines [of e s exe f] it
    by (auto simp: s1 [symmetric] split: option.splits)
qed

text \<open>
  Claim C1. With a usable converter configured, the batch handler returns normally for
  every selection and every behaviour of the outside world. The converter is started once
  for every selected file, in order, whatever happened to the files before it. The log
  gains exactly one line \<open>Failed to process <file>: <error>\<close> for every file with a step
  that raised (the conversion, or the extraction or the stripping after it), and none
  for the others. In particular a pass whose conversion raises ends normally and adds
  exactly one failure line, for that file, so no file's failure ends the batch.
\<close>

theorem batch_survives_failures:
  assumes "paths_get s ''texconv'' None = Inr (Some texconv_exe)"
    and "texconv_exe \<noteq> []" and "isfile (fs s) texconv_exe"
  shows "fst (on_import_dds e s dds_files) = Inr ()
       \<and> conversions (events (snd (on_import_dds e s dds_files))) =
           conversions (events s) @ dds_files
       \<and> failure_lines (log_window (snd (on_import_dds e s dds_files))) =
           failure_lines (log_window s)
             @ expected_failure_lines dds_files (pipeline_failures e s texconv_exe dds_files)
       \<and> (\<forall>ex. conversion_result e s1 texconv_exe dds_file = Inl ex \<longrightarrow>
            fst (dds_iteration e s1 texconv_exe dds_file) = Inr ()
            \<and> failure_lines (log_window (snd (dds_iteration e s1 texconv_exe dds_file))) =
                failure_lines (log_window s1) @ [failure_line dds_file ex])"
proof -
  have batch: "fst (on_import_dds e s dds_files) = Inr ()
       \<and> conversions (events (snd (on_import_dds e s dds_files))) =
           conversions (events s) @ dds_files
       \<and> failure_lines (log_window (snd (on_import_dds e s dds_files))) =
           failure_lines (log_window s)
             @ expected_failure_lines dds_files (pipeline_failures e s texconv_exe dds_files)"
  proof (cases "dds_files = []")
    case True
    then show ?thesis
      by (simp add: on_import_dds_def conversions_def)
  next
    case False
    with assms have "on_import_dds e s dds_files = dds_loop e s texconv_exe dds_files"
      by (simp add: on_import_dds_def)
    then show ?thesis
      using dds_loop_effect [of e s texconv_exe dds_files]
        dds_loop_failure_lines [of e s texconv_exe dds_files]
      by (simp add: conversions_def o_def)
  qed
  have pass: "\<forall>ex. conversion_result e s1 texconv_exe dds_file = Inl ex \<longrightarrow>
            fst (dds_iteration e s1 texconv_exe dds_file) = Inr ()
            \<and> failure_lines (log_window (snd (dds_iteration e s1 texconv_exe dds_file))) =
                failure_lines (log_window s1) @ [failure_line dds_file ex]"
    using dds_iteration_effect(1) [of e s1 texconv_exe dds_file]
      dds_iteration_failure_lines [of e s1 texconv_exe dds_file]
    by (simp add: step_failure_def)
  from batch pass show ?thesis
    by simp
qed

theorem batch_survives_failures_witness:
  "paths_get (texconv_session Map.empty) ''texconv'' None = Inr (Some ''/tools/texconv.exe'')
   \<and> isfile (fs (texconv_session Map.empty)) ''/tools/texconv.exe''
   \<and> conversion_result flaky_env (texconv_session Map.empty) ''/tools/texconv.exe'' ''/t/a.dds''
       = Inl (RuntimeError, ''Failed to convert /t/a.dds to PNG: texconv failed with code 1:''
                @ [newline] @ ''bad header'' @ [newline] @ ''written 0 files'')
   \<and> fst (on_import_dds flaky_env (texconv_session Map.empty) [''/t/a.dds'', ''/t/b.dds'']) = Inr ()
   \<and> conversions (events (snd (on_import_dds flaky_env (texconv_session Map.empty)
                                   [''/t/a.dds'', ''/t/b.dds''])))
       = [''/t/a.dds'', ''/t/b.dds'']
   \<and> failure_lines (log_window (snd (on_import_dds flaky_env (texconv_session Map.empty)
                                         [''/t/a.dds'', ''/t/b.dds''])))
       = [''Failed to process /t/a.dds: Failed to convert /t/a.dds to PNG: ''
            @ ''texconv failed with code 1:'' @ [newline] @ ''bad header''
            @ [newline] @ ''written 0 files'']
   \<and> failure_lines (log_window (snd (dds_iteration flaky_env (texconv_session Map.empty)
                                         ''/tools/texconv.exe'' ''/t/a.dds'')))
       = [''Failed to process /t/a.dds: Failed to convert /t/a.dds to PNG: ''
            @ ''texconv failed with code 1:'' @ [newline] @ ''bad header''
            @ [newline] @ ''written 0 files'']"
proof -
  have tool: "paths_get (texconv_session Map.empty) ''texconv'' None = Inr (Some ''/tools/texconv.exe'')"
    by (simp add: eval_defs)
  have named: "''/tools/texconv.exe'' \<noteq> []"
    by simp
  have present: "isfile (fs (texconv_session Map.empty)) ''/tools/texconv.exe''"
    by (simp add: eval_defs)
  have failed: "conversion_result flaky_env (texconv_session Map.empty) ''/tools/texconv.exe''
                  ''/t/a.dds''
       = Inl (RuntimeError, ''Failed to convert /t/a.dds to PNG: texconv failed with code 1:''
                @ [newline] @ ''bad header'' @ [newline] @ ''written 0 files'')"
    by (simp add: eval_defs flaky_env_def conversion_result_def converting_line_def)
  from batch_survives_failures
         [OF tool named present,
          where e = flaky_env and dds_files = "[''/t/a.dds'', ''/t/b.dds'']"
            and ?s1.0 = "texconv_session Map.empty" and dds_file = "''/t/a.dds''"]
    tool present failed
  show ?thesis
    by (simp add: eval_defs flaky_env_def rgba_2x1_def failure_line_def conversions_def
          step_failure_def conversion_result_def extraction_result_def removal_result_def
          after_conversion_def converting_line_def)
qed

lemma extracted_then_removable:
  assumes "fst (extract_alpha_channel s i out) = Inr True" and "i \<noteq> out"
  shows "fst (remove_alpha_channel (snd (extract_alpha_channel s i out)) i) = Inr ()"
    and "path_exists (fs (snd (remove_alpha_channel (snd (extract_alpha_channel s i out)) i))) out"
  using assms
  by (auto simp: extract_alpha_channel_def remove_alpha_channel_def image_open_def
        image_save_def path_exists_def Let_def
        split: option.splits node.splits content.splits sum.splits if_splits)

text \<open>
  Claim C5, as amended. In the pipeline of one file, the imports handed to the host are:
  none when a step before the import raised; otherwise the PNG, followed by the alpha PNG
  exactly when a file exists at the derived \<open>_alpha.png\<close> path once the PNG has been
  imported. That is the case whenever the extraction step of this run created the file;
  it is also the case when a file was at that path before the run.
\<close>

theorem alpha_import_follows_existence:
  "imported (events (snd (dds_try e s exe f))) =
     imported (events s)
       @ (if fst (dds_try e s exe f) = Inr ()
          then output_png_of f
                 # (if path_exists (fs (snd (dds_try e s exe f))) (output_alpha_png_of f)
                    then [output_alpha_png_of f] else [])
          else [])
   \<and> (conversion_result e s exe f = Inr () \<and> extraction_result e s exe f = Inr True \<longrightarrow>
        fst (dds_try e s exe f) = Inr ()
        \<and> path_exists (fs (snd (dds_try e s exe f))) (output_alpha_png_of f))"
proof (intro conjI impI)
  show "imported (events (snd (dds_try e s exe f))) =
     imported (events s)
       @ (if fst (dds_try e s exe f) = Inr ()
          then output_png_of f
                 # (if path_exists (fs (snd (dds_try e s exe f))) (output_alpha_png_of f)
                    then [output_alpha_png_of f] else [])
          else [])"
    by (simp add: dds_try_def Let_def split_beta split: sum.splits)
next
  assume a: "conversion_result e s exe f = Inr () \<and> extraction_result e s exe f = Inr True"
  let ?s2 = "after_conversion e s exe f"
  from a have ex: "fst (extract_alpha_channel ?s2 (output_png_of f) (output_alpha_png_of f)) = Inr True"
    by (simp add: extraction_result_def)
  note rm = extracted_then_removable [OF ex png_names_differ]
  from a rm show "fst (dds_try e s exe f) = Inr ()"
    by (simp add: dds_try_def Let_def split_beta conversion_result_def extraction_result_def
          after_conversion_def converting_line_def split: sum.splits)
  from a rm show "path_exists (fs (snd (dds_try e s exe f))) (output_alpha_png_of f)"
    by (simp add: dds_try_def Let_def split_beta conversion_result_def extraction_result_def
          after_conversion_def converting_line_def split: sum.splits)
qed

theorem alpha_import_follows_existence_witness:
  "conversion_result flaky_env (texconv_session Map.empty) ''/tools/texconv.exe'' ''/t/b.dds'' = Inr ()
   \<and> extraction_result flaky_env (texconv_session Map.empty) ''/tools/texconv.exe'' ''/t/b.dds''
       = Inr True
   \<and> fst (dds_try flaky_env (texconv_session Map.empty) ''/tools/texconv.exe'' ''/t/b.dds'') = Inr ()
   \<and> imported (events (snd (dds_try flaky_env (texconv_session Map.empty)
                                ''/tools/texconv.exe'' ''/t/b.dds'')))
       = [''/t/b.png'', ''/t/b_alpha.png'']"
proof -
  have conv: "conversion_result flaky_env (texconv_session Map.empty) ''/tools/texconv.exe''
                ''/t/b.dds'' = Inr ()"
    by (simp add: eval_defs flaky_env_def conversion_result_def converting_line_def)
  have extr: "extraction_result flaky_env (texconv_session Map.empty) ''/tools/texconv.exe''
                ''/t/b.dds'' = Inr True"
    by (simp add: eval_defs flaky_env_def rgba_2x1_def extraction_result_def after_conversion_def
          converting_line_def)
  from alpha_import_follows_existence
         [of flaky_env "texconv_session Map.empty" "''/tools/texconv.exe''" "''/t/b.dds''"]
    conv extr
  show ?thesis
    by (simp add: output_png_of_def output_alpha_png_of_def splitext_root_def basename_def
          slash_def texconv_session_def session_with_def)
qed

text \<open>
  The claim as stated fails: with a file already at \<open>/t/x_alpha.png\<close> and a converted
  image that has no alpha band, the extraction step creates nothing, the log says that no
  alpha channel was found, and the file at the alpha path is imported all the same.
\<close>

theorem stale_alpha_file_is_imported:
  "extraction_result stale_env stale_session ''/tools/texconv.exe'' ''/t/x.dds'' = Inr False
   \<and> imported (events (snd (on_import_dds stale_env stale_session [''/t/x.dds''])))
       = [''/t/x.png'', ''/t/x_alpha.png'']
   \<and> log_window (snd (on_import_dds stale_env stale_session [''/t/x.dds''])) =
       [''Converting /t/x.dds to PNG directly using texconv...'',
        ''No alpha channel found in: /t/x.dds'',
        ''Converted to: /t/x.png'',
        ''Imported to shelf: /t/x.png'',
        ''Imported to shelf: /t/x_alpha.png'']"
  by (simp add: eval_defs stale_env_def stale_session_def rgb_2x1_def gray_2x1_def
        extraction_result_def after_conversion_def converting_line_def)

subsection \<open>BC5 decode workflow\<close>

text \<open>
  Claim C2, as amended. When the decode tool is not usable, \<open>on_import_bc5\<close> starts no
  process, whatever the user chose in the dialogs; and when the user chose both an input
  and an output file, it logs the abort message and returns, with no other effect.
\<close>

theorem bc5_missing_tool_starts_nothing:
  assumes "bc5_tool_missing s"
  shows "started (events (snd (on_import_bc5 e s bc5_input out_dds))) = started (events s)
       \<and> (bc5_input \<noteq> [] \<and> out_dds \<noteq> [] \<longrightarrow>
            on_import_bc5 e s bc5_input out_dds = (Inr (), log s bc5_abort_message))"
  using assms
  by (auto simp: bc5_tool_missing_def on_import_bc5_def split: sum.splits option.splits)

theorem bc5_missing_tool_starts_nothing_witness:
  "bc5_tool_missing (session_with Map.empty [(''bcdecode'', ''/tools/bcdecode.exe'')])
   \<and> on_import_bc5 (tool_env (Inr (exit_with 0)))
         (session_with Map.empty [(''bcdecode'', ''/tools/bcdecode.exe'')])
         ''/t/n.dds'' ''/t/out.dds'' =
       (Inr (), \<lparr>fs = Map.empty,
                 config = paths_config [(''bcdecode'', ''/tools/bcdecode.exe'')],
                 log_window = [bc5_abort_message],
                 events = [Print bc5_abort_message]\<rparr>)"
proof -
  have missing: "bc5_tool_missing (session_with Map.empty [(''bcdecode'', ''/tools/bcdecode.exe'')])"
    by (simp add: bc5_tool_missing_def paths_get_def parser_getitem_def proxy_get_def
          session_with_def paths_config_def DEFAULTSECT_def optionxform_def lower_char_def
          before_get_def interpolate_some.simps MAX_INTERPOLATION_DEPTH_def percent_def
          isfile_def)
  from bc5_missing_tool_starts_nothing [OF missing, of "tool_env (Inr (exit_with 0))"
         "''/t/n.dds''" "''/t/out.dds''"] missing
  show ?thesis
    by (simp add: session_with_def log_def log_to_painter_console_def)
qed

text \<open>
  The claim as stated fails: with no decode tool configured and the first dialog
  cancelled, the handler shows the "Cancelled" dialog and returns; nothing is logged.
\<close>

theorem bc5_cancelled_logs_nothing:
  "bc5_tool_missing (session_with Map.empty [(''texconv'', default_texconv)])
   \<and> on_import_bc5 (tool_env (Inr (exit_with 0)))
         (session_with Map.empty [(''texconv'', default_texconv)]) [] ''/t/out.dds'' =
       (Inr (), \<lparr>fs = Map.empty,
                 config = paths_config [(''texconv'', default_texconv)],
                 log_window = [],
                 events = [MessageBox ''Cancelled'' ''No BC5_SNORM input file selected.'']\<rparr>)"
  by (simp add: bc5_tool_missing_def paths_get_def parser_getitem_def proxy_get_def
        session_with_def paths_config_def DEFAULTSECT_def optionxform_def lower_char_def
        on_import_bc5_def show_message_box_def)

lemma before_shelf_import_effect:
  "events (before_shelf_import e s exe i out) =
     events s @ [Print (bc5_running_line i), RunProcess (bcdecode_cmd exe i out),
                 Print (bc5_success_line i out), bc5_success_box i out]"
  "log_window (before_shelf_import e s exe i out) =
     log_window s @ [bc5_running_line i, bc5_success_line i out]"
  by (simp_all add: before_shelf_import_def bc5_success_box_def)

lemma bc5_decoded_run:
  assumes "bc5_input \<noteq> []" and "out_dds \<noteq> []"
    and "paths_get s ''bcdecode'' None = Inr (Some bcdecode_exe)"
    and "bcdecode_exe \<noteq> []" and "isfile (fs s) bcdecode_exe"
    and "decode_result e s bcdecode_exe bc5_input out_dds = Inr ()"
  shows "on_import_bc5 e s bc5_input out_dds =
           import_to_shelf e (before_shelf_import e s bcdecode_exe bc5_input out_dds) out_dds"
proof -
  have "bc5_try e s bcdecode_exe bc5_input out_dds =
          import_to_shelf e (before_shelf_import e s bcdecode_exe bc5_input out_dds) out_dds"
    using assms(6)
    by (simp add: bc5_try_def decode_result_def before_shelf_import_def bc5_running_line_def
          bc5_success_line_def Let_def split_beta)
  moreover have "fst (import_to_shelf e (before_shelf_import e s bcdecode_exe bc5_input out_dds)
                        out_dds) = Inr ()"
    by simp
  ultimately show ?thesis
    using assms(1-5)
    by (cases "import_to_shelf e (before_shelf_import e s bcdecode_exe bc5_input out_dds) out_dds")
       (simp add: on_import_bc5_def)
qed

lemma bc5_import_order:
  "dialog_before_import False
     (drop (length (events s)) (events (snd (on_import_bc5 e s bc5_input out_dds))))"
  by (simp add: on_import_bc5_def bc5_try_def Let_def split_beta
        split: sum.splits option.splits)

text \<open>
  Claim C10. In every run of \<open>on_import_bc5\<close>, an import of the output into the shelf
  comes after the "Import Successful" dialog. When the decode succeeds, the trace of the
  run is: the decode, its log line, the dialog, the import, and one more log line, which
  is the failure line when the host's import raised. So a failed import after a
  successful decode is reported as a log line only, after the success dialog was shown.
\<close>

theorem success_dialog_precedes_import:
  "dialog_before_import False
     (drop (length (events s)) (events (snd (on_import_bc5 e s bc5_input out_dds))))
   \<and> (bc5_input \<noteq> [] \<and> out_dds \<noteq> []
        \<and> paths_get s ''bcdecode'' None = Inr (Some bcdecode_exe)
        \<and> bcdecode_exe \<noteq> [] \<and> isfile (fs s) bcdecode_exe
        \<and> decode_result e s bcdecode_exe bc5_input out_dds = Inr () \<longrightarrow>
      fst (on_import_bc5 e s bc5_input out_dds) = Inr ()
      \<and> events (snd (on_import_bc5 e s bc5_input out_dds)) =
          events s @ [Print (bc5_running_line bc5_input),
                      RunProcess (bcdecode_cmd bcdecode_exe bc5_input out_dds),
                      Print (bc5_success_line bc5_input out_dds),
                      bc5_success_box bc5_input out_dds,
                      ImportResource out_dds TEXTURE (basename out_dds),
                      Print (shelf_line e (before_shelf_import e s bcdecode_exe bc5_input out_dds)
                               out_dds)]
      \<and> log_window (snd (on_import_bc5 e s bc5_input out_dds)) =
          log_window s @ [bc5_running_line bc5_input, bc5_success_line bc5_input out_dds,
                          shelf_line e (before_shelf_import e s bcdecode_exe bc5_input out_dds)
                            out_dds]
      \<and> (\<forall>ex. host_answer e (before_shelf_import e s bcdecode_exe bc5_input out_dds) out_dds
                  = Some ex \<longrightarrow>
             shelf_line e (before_shelf_import e s bcdecode_exe bc5_input out_dds) out_dds =
               ''Failed to import '' @ out_dds @ '' to shelf: '' @ snd ex))"
  using bc5_import_order [of s e bc5_input out_dds]
    bc5_decoded_run [of bc5_input out_dds s bcdecode_exe e]
  by (simp add: before_shelf_import_effect shelf_line_def host_answer_def)

theorem success_dialog_precedes_import_witness:
  "paths_get bcdecode_session ''bcdecode'' None = Inr (Some ''/tools/bcdecode.exe'')
   \<and> isfile (fs bcdecode_session) ''/tools/bcdecode.exe''
   \<and> decode_result (host_env (Some (ValueError, ''bad resource''))) bcdecode_session
         ''/tools/bcdecode.exe'' ''/t/n.dds'' ''/t/out.dds'' = Inr ()
   \<and> fst (on_import_bc5 (host_env (Some (ValueError, ''bad resource''))) bcdecode_session
             ''/t/n.dds'' ''/t/out.dds'') = Inr ()
   \<and> events (snd (on_import_bc5 (host_env (Some (ValueError, ''bad resource''))) bcdecode_session
                     ''/t/n.dds'' ''/t/out.dds'')) =
       [Print ''Running bcdecode on /t/n.dds...'',
        RunProcess [''/tools/bcdecode.exe'', ''/t/n.dds'', ''/t/out.dds'', ''0'', ''2''],
        Print (''bcdecode successful:'' @ [newline] @ ''n.dds -> /t/out.dds''),
        MessageBox ''Import Successful'' (''bcdecode => n.dds'' @ [newline] @ ''-> /t/out.dds''),
        ImportResource ''/t/out.dds'' TEXTURE ''out.dds'',
        Print ''Failed to import /t/out.dds to shelf: bad resource'']
   \<and> log_window (snd (on_import_bc5 (host_env (Some (ValueError, ''bad resource'')))
                         bcdecode_session ''/t/n.dds'' ''/t/out.dds'')) =
       [''Running bcdecode on /t/n.dds...'',
        ''bcdecode successful:'' @ [newline] @ ''n.dds -> /t/out.dds'',
        ''Failed to import /t/out.dds to shelf: bad resource'']"
proof -
  have tool: "paths_get bcdecode_session ''bcdecode'' None = Inr (Some ''/tools/bcdecode.exe'')"
    by (simp add: eval_defs bcdecode_session_def)
  have present: "isfile (fs bcdecode_session) ''/tools/bcdecode.exe''"
    by (simp add: eval_defs bcdecode_session_def)
  have decoded: "decode_result (host_env (Some (ValueError, ''bad resource''))) bcdecode_session
         ''/tools/bcdecode.exe'' ''/t/n.dds'' ''/t/out.dds'' = Inr ()"
    by (simp add: decode_result_def run_bcdecode_def host_env_def Let_def)
  from success_dialog_precedes_import
         [of bcdecode_session "host_env (Some (ValueError, ''bad resource''))"
             "''/t/n.dds''" "''/t/out.dds''" "''/tools/bcdecode.exe''"]
    tool present decoded
  show ?thesis
    by (simp add: bc5_running_line_def bc5_success_line_def bc5_success_box_def bcdecode_cmd_def
          shelf_line_def host_answer_def host_env_def basename_def slash_def bcdecode_session_def
          session_with_def)
qed

subsection \<open>Strings\<close>

lemma space_chars [simp]:
  "is_space newline" "is_space carriage_return" "is_space CHR '' ''"
  "\<not> is_space CHR ''=''" "\<not> is_space CHR ''[''" "\<not> is_space CHR '']''"
  by (simp_all add: is_space_def newline_def carriage_return_def)

lemma rstrip_length: "length (rstrip v) \<le> length v"
  by (simp add: rstrip_def) (metis length_dropWhile_le length_rev)

lemma lstrip_length: "length (lstrip v) \<le> length v"
  by (simp add: lstrip_def length_dropWhile_le)

lemma strip_fixed:
  assumes "strip v = v" and "v \<noteq> []"
  shows "\<not> is_space (hd v)" and "\<not> is_space (last v)"
proof -
  show h: "\<not> is_space (hd v)"
  proof
    assume "is_space (hd v)"
    with assms(2) have "length (lstrip v) < length v"
      by (cases v) (auto simp: lstrip_def intro: le_imp_less_Suc length_dropWhile_le)
    moreover have "length (strip v) \<le> length (lstrip v)"
      by (simp add: strip_def rstrip_length)
    ultimately show False using assms(1) by simp
  qed
  with assms(2) have l: "lstrip v = v"
    by (cases v) (auto simp: lstrip_def)
  show "\<not> is_space (last v)"
  proof
    assume "is_space (last v)"
    with assms(2) have "length (rstrip v) < length v"
      by (cases v rule: rev_cases)
         (auto simp: rstrip_def intro!: le_imp_less_Suc order_trans [OF length_dropWhile_le])
    thus False using assms(1) l by (simp add: strip_def)
  qed
qed

lemma rstrip_keep: "v \<noteq> [] \<Longrightarrow> \<not> is_space (last v) \<Longrightarrow> rstrip (u @ v) = u @ v"
  by (cases v rule: rev_cases) (auto simp: rstrip_def)

lemma lstrip_keep: "v \<noteq> [] \<Longrightarrow> \<not> is_space (hd v) \<Longrightarrow> lstrip (v @ u) = v @ u"
  by (cases v) (auto simp: lstrip_def)

subsection \<open>Dictionaries\<close>

lemma dict_set_fresh: "k \<notin> fst ` set d \<Longrightarrow> dict_set k v d = d @ [(k, v)]"
  by (induction d) auto

lemma dict_set_last: "k \<notin> fst ` set d \<Longrightarrow> dict_set k v (d @ [(k, w)]) = d @ [(k, v)]"
  by (induction d) auto

lemma map_of_last: "k \<notin> fst ` set d \<Longrightarrow> map_of (d @ [(k, w)]) k = Some w"
  by (induction d) auto

lemma dict_set_keys: "fst ` set (dict_set k v d) = insert k (fst ` set d)"
proof (induction d)
  case Nil
  show ?case by simp
next
  case (Cons kv d)
  show ?case
  proof (cases "fst kv = k")
    case True
    then show ?thesis by (cases kv) auto
  next
    case False
    then show ?thesis using Cons by (cases kv) (simp add: insert_commute)
  qed
qed

lemma map_of_dict_set: "map_of (dict_set k v d) = (map_of d)(k \<mapsto> v)"
  by (induction d) auto

lemma store_options_distinct:
  "distinct (map fst (d @ opts)) \<Longrightarrow> store_options opts d = d @ opts"
proof (induction opts arbitrary: d)
  case Nil
  show ?case by (simp add: store_options_def)
next
  case (Cons kv opts)
  obtain k v where kv: "kv = (k, v)"
    by (cases kv)
  from Cons.prems have "k \<notin> fst ` set d" and "distinct (map fst ((d @ [(k, v)]) @ opts))"
    by (auto simp: kv)
  with Cons.IH [of "d @ [(k, v)]"] show ?case
    by (simp add: store_options_def kv dict_set_fresh)
qed

subsection \<open>Interpolation\<close>

lemma interpolate_plain:
  assumes "percent \<notin> set v" and "depth \<le> MAX_INTERPOLATION_DEPTH"
  shows "interpolate_some m depth v = Inr v"
  using assms
proof (induction v)
  case Nil
  then show ?case by (simp add: interpolate_some.simps)
next
  case (Cons c cs)
  then show ?case by (subst interpolate_some.simps) auto
qed

lemma remove_escaped_plain: "percent \<notin> set v \<Longrightarrow> remove_escaped v = v"
  by (induction v rule: remove_escaped.induct) auto

lemma keycre_match_plain: "percent \<notin> set (c # cs) \<Longrightarrow> keycre_match (c # cs) = None"
  by (auto simp: keycre_match_def split: list.splits)

lemma remove_refs_plain: "percent \<notin> set v \<Longrightarrow> remove_refs v = v"
  by (induction v) (simp_all add: keycre_match_plain del: set_simps, simp_all)

lemma before_set_plain: "percent \<notin> set v \<Longrightarrow> before_set v = None"
  by (simp add: before_set_def remove_escaped_plain remove_refs_plain)

subsection \<open>Reading what was written\<close>

text \<open>
  A section \<open>Paths\<close> with plain options is printed as its header, one line for each
  option and an empty line. The reader takes the header, stores each option with its
  value, and appends an empty line to the value of the last option, which is dropped when
  the lines of the value are joined. So the text holds the options that were written.
\<close>

lemma indent_newlines_plain: "newline \<notin> set v \<Longrightarrow> indent_newlines v = v"
  by (induction v) auto

lemma universal_newlines_plain: "carriage_return \<notin> set t \<Longrightarrow> universal_newlines t = t"
  by (induction t rule: universal_newlines.induct) auto

lemma split_lines_line:
  "newline \<notin> set l \<Longrightarrow> split_lines cur (l @ newline # rest) = (cur @ l) # split_lines [] rest"
  by (induction l arbitrary: cur) auto

lemma plain_key_chars:
  assumes "plain_key k"
  shows "newline \<notin> set k" "carriage_return \<notin> set k" "k \<noteq> []" "\<not> is_space (hd k)"
    "\<not> is_space (last k)" "\<forall>c \<in> set k. \<not> is_space c \<and> \<not> is_delimiter c"
    "hd k \<noteq> CHR ''[''" "hd k \<noteq> CHR ''#''" "hd k \<noteq> CHR '';''" "optionxform k = k"
  using assms by (auto simp: plain_key_def list_all_iff)

lemma plain_value_ends:
  assumes "plain_value v" and "v \<noteq> []"
  shows "\<not> is_space (hd v)" and "\<not> is_space (last v)"
  using assms strip_fixed [of v] by (simp_all add: plain_value_def)

lemma plain_options_Cons:
  "plain_options ((k, v) # opts) \<longleftrightarrow>
     plain_key k \<and> plain_value v \<and> k \<notin> fst ` set opts \<and> plain_options opts"
  by (auto simp: plain_options_def)

lemma plain_options_append:
  "plain_options (xs @ ys) \<longleftrightarrow>
     plain_options xs \<and> plain_options ys \<and> fst ` set xs \<inter> fst ` set ys = {}"
  by (auto simp: plain_options_def)

lemma plain_options_dict_set:
  "plain_options opts \<Longrightarrow> plain_key k \<Longrightarrow> plain_value v \<Longrightarrow> plain_options (dict_set k v opts)"
proof (induction opts)
  case Nil
  then show ?case by (simp add: plain_options_def)
next
  case (Cons kv opts)
  then show ?case
    by (cases kv) (auto simp: plain_options_Cons dict_set_keys)
qed

lemma opt_match_key:
  assumes "\<forall>c \<in> set k. \<not> is_space c \<and> \<not> is_delimiter c"
  shows "opt_match (k @ CHR '' '' # CHR ''='' # tail) = Some (k, lstrip tail)"
  using assms
proof (induction k)
  case Nil
  show ?case by (simp add: lstrip_def is_delimiter_def)
next
  case (Cons c cs)
  then show ?case by (simp add: lstrip_def)
qed

lemma strip_option_line:
  assumes "plain_key k" and "plain_value v"
  shows "strip (option_line (k, v)) = k @ '' ='' @ (if v = [] then [] else CHR '' '' # v)"
proof -
  have l: "lstrip (k @ '' = '' @ v) = k @ '' = '' @ v"
    using plain_key_chars(3,4) [OF assms(1)] by (rule lstrip_keep)
  show ?thesis
  proof (cases "v = []")
    case True
    then show ?thesis
      unfolding option_line_def strip_def fst_conv snd_conv l
      by (simp add: rstrip_def)
  next
    case False
    with plain_value_ends(2) [OF assms(2)] rstrip_keep [of v "k @ '' = ''"]
    show ?thesis
      unfolding option_line_def strip_def fst_conv snd_conv l
      by simp
  qed
qed

lemma sect_match_key: "k \<noteq> [] \<Longrightarrow> hd k \<noteq> CHR ''['' \<Longrightarrow> sect_match (k @ rest) = None"
  by (cases k) (simp_all add: sect_match_def Let_def)

lemma read_line_option:
  assumes "plain_key k" and "plain_value v"
    and "cursect r = Some sectname" and "indent_level r = 0"
    and "(sectname, k) \<notin> set (options_added r)"
  shows "read_line r (option_line (k, v)) =
           Inr (r\<lparr>table := dict_set sectname
                              (dict_set k [v]
                                 (case map_of (table r) sectname of None \<Rightarrow> [] | Some opts \<Rightarrow> opts))
                              (table r),
                   optname := k, indent_level := 0,
                   options_added := options_added r @ [(sectname, k)],
                   parse_error := parse_error r\<rparr>)"
proof -
  note key = plain_key_chars [OF assms(1)]
  let ?tail = "if v = [] then [] else CHR '' '' # v"
  have stripped: "strip (option_line (k, v)) = k @ CHR '' '' # CHR ''='' # ?tail"
    using strip_option_line [OF assms(1,2)] by simp
  have no_comment: "\<not> is_comment (option_line (k, v))"
    unfolding is_comment_def stripped using key(3,8,9) by (cases k) simp_all
  have not_empty: "strip (option_line (k, v)) \<noteq> []"
    using key(3) by (simp add: stripped)
  have indent: "takeWhile is_space (option_line (k, v)) = []"
    using key(3,4) by (cases k) (simp_all add: option_line_def)
  have no_section: "sect_match (strip (option_line (k, v))) = None"
    unfolding stripped using key(3,7) by (rule sect_match_key)
  have tail: "lstrip ?tail = v"
    using plain_value_ends(1) [OF assms(2)] by (cases v) (simp_all add: lstrip_def)
  have option: "opt_match (strip (option_line (k, v))) = Some (k, v)"
    unfolding stripped using opt_match_key [OF key(6), of ?tail] tail by simp
  have name: "optionxform (rstrip k) = k"
    using rstrip_keep [of k "[]"] key(3,5,10) by simp
  have val: "strip v = v"
    using assms(2) by (simp add: plain_value_def)
  show ?thesis
    using assms(3,4,5) key(3)
    by (simp add: read_line_def no_comment not_empty indent no_section option name val)
qed

lemma read_header: "read_line new_reader ''[Paths]'' = Inr (reader_after [] [])"
  by (simp add: read_line_def new_reader_def reader_after_def is_comment_def strip_def
        lstrip_def rstrip_def is_space_def sect_match_def DEFAULTSECT_def Let_def)

lemma read_line_next:
  assumes "plain_key k" and "plain_value v" and "k \<notin> fst ` set opts"
  shows "read_line (reader_after opts n) (option_line (k, v)) =
           Inr (reader_after (opts @ [(k, v)]) k)"
proof -
  have fresh: "k \<notin> fst ` set (map (\<lambda>kv. (fst kv, [snd kv])) opts)"
    using assms(3) by (auto simp: image_iff)
  have unseen: "(''Paths'', k) \<notin> set (options_added (reader_after opts n))"
    using assms(3) by (auto simp: reader_after_def image_iff)
  show ?thesis
    using read_line_option [OF assms(1,2) _ _ unseen] dict_set_fresh [OF fresh, of "[v]"]
    by (simp add: reader_after_def)
qed

lemma read_lines_options:
  "plain_options (seen @ opts) \<Longrightarrow>
     read_lines (reader_after seen n) (map option_line opts) =
       Inr (reader_after (seen @ opts) (if opts = [] then n else fst (last opts)))"
proof (induction opts arbitrary: seen n)
  case Nil
  show ?case by simp
next
  case (Cons kv opts)
  obtain k v where kv: "kv = (k, v)"
    by (cases kv)
  from Cons.prems have key: "plain_key k" "plain_value v" "k \<notin> fst ` set seen"
    by (auto simp: kv plain_options_append plain_options_Cons)
  from Cons.prems have rest: "plain_options ((seen @ [(k, v)]) @ opts)"
    by (simp add: kv)
  show ?case
    using Cons.IH [OF rest, of k] read_line_next [OF key, of n]
    by (simp add: kv)
qed

lemma read_lines_append:
  "read_lines r (xs @ ys) =
     (case read_lines r xs of Inl ex \<Rightarrow> Inl ex | Inr r' \<Rightarrow> read_lines r' ys)"
  by (induction xs arbitrary: r) (auto split: sum.splits)

lemma read_blank:
  assumes "plain_options (front @ [(k, v)])"
  shows "read_line (reader_after (front @ [(k, v)]) k) [] =
           Inr ((reader_after (front @ [(k, v)]) k)
                  \<lparr>table := [(''Paths'', map (\<lambda>kv. (fst kv, [snd kv])) front @ [(k, [v, []])])]\<rparr>)"
proof -
  from assms have key: "k \<noteq> []" "k \<notin> fst ` set front"
    by (auto simp: plain_options_append plain_options_Cons plain_key_def)
  have fresh: "k \<notin> fst ` set (map (\<lambda>kv. (fst kv, [snd kv])) front)"
    using key(2) by (auto simp: image_iff)
  show ?thesis
    using key(1) map_of_last [OF fresh, of "[v]"] dict_set_last [OF fresh, of "[v, []]" "[v]"]
    by (simp add: read_line_def is_comment_def strip_def lstrip_def rstrip_def
          append_line_def reader_after_def)
qed

lemma join_value_plain:
  assumes "plain_value v"
  shows "join_value [v] = v" and "join_value [v, []] = v"
proof -
  have r: "rstrip v = v"
    using rstrip_keep [of v "[]"] plain_value_ends(2) [OF assms]
    by (cases "v = []") (simp_all add: rstrip_def)
  show "join_value [v] = v"
    by (simp add: join_value_def r)
  have "rstrip (v @ [newline]) = rstrip v"
    by (simp add: rstrip_def)
  thus "join_value [v, []] = v"
    by (simp add: join_value_def r)
qed

lemma joined_options:
  "list_all (\<lambda>(k, v). plain_key k \<and> plain_value v) opts \<Longrightarrow>
     map (\<lambda>(name, ls). (name, join_value ls)) (map (\<lambda>kv. (fst kv, [snd kv])) opts) = opts"
  by (induction opts) (auto simp: join_value_plain)

lemma write_option_plain:
  "plain_value (snd kv) \<Longrightarrow> write_option kv = option_line kv @ [newline]"
  by (simp add: write_option_def option_line_def indent_newlines_plain plain_value_def)

lemma option_line_chars:
  assumes "plain_key (fst kv)" and "plain_value (snd kv)"
  shows "newline \<notin> set (option_line kv)" and "carriage_return \<notin> set (option_line kv)"
  using assms plain_key_chars(1,2) [of "fst kv"]
  by (auto simp: option_line_def plain_value_def newline_def carriage_return_def)

lemma split_lines_options:
  "list_all (\<lambda>(k, v). plain_key k \<and> plain_value v) opts \<Longrightarrow>
     split_lines [] (concat (map write_option opts) @ rest) =
       map option_line opts @ split_lines [] rest"
proof (induction opts)
  case Nil
  show ?case by simp
next
  case (Cons kv opts)
  then have kv: "plain_key (fst kv)" "plain_value (snd kv)"
    by (auto simp: case_prod_beta)
  show ?case
    using Cons split_lines_line [OF option_line_chars(1) [OF kv], of "[]"]
    by (simp add: write_option_plain [OF kv(2)])
qed

lemma written_options_chars:
  "list_all (\<lambda>(k, v). plain_key k \<and> plain_value v) opts \<Longrightarrow>
     carriage_return \<notin> set (concat (map write_option opts))"
proof (induction opts)
  case Nil
  show ?case by simp
next
  case (Cons kv opts)
  then have kv: "plain_key (fst kv)" "plain_value (snd kv)"
    by (auto simp: case_prod_beta)
  show ?case
    using Cons option_line_chars(2) [OF kv]
    by (simp add: write_option_plain [OF kv(2)] newline_def carriage_return_def)
qed

lemma file_lines_written:
  assumes "plain_options opts"
  shows "file_lines (parser_write (paths_config opts)) =
           ''[Paths]'' # map option_line opts @ [[]]"
proof -
  from assms have each: "list_all (\<lambda>(k, v). plain_key k \<and> plain_value v) opts"
    by (simp add: plain_options_def)
  have written: "parser_write (paths_config opts) =
                ''[Paths]'' @ newline # concat (map write_option opts) @ [newline]"
    by (simp add: parser_write_def paths_config_def write_section_def)
  have cr: "carriage_return \<notin> set (parser_write (paths_config opts))"
    using written_options_chars [OF each]
    by (simp add: written) (simp add: newline_def carriage_return_def)
  have "file_lines (parser_write (paths_config opts)) =
           split_lines [] (parser_write (paths_config opts))"
    by (simp add: file_lines_def universal_newlines_plain [OF cr])
  also have "\<dots> =
           split_lines [] (''[Paths]'' @ newline # concat (map write_option opts) @ [newline])"
    by (simp only: written)
  also have "\<dots> = ''[Paths]'' # split_lines [] (concat (map write_option opts) @ [newline])"
    using split_lines_line [of "''[Paths]''" "[]"] by (simp add: newline_def)
  also have "\<dots> = ''[Paths]'' # map option_line opts @ [[]]"
    by (simp add: split_lines_options [OF each])
  finally show ?thesis .
qed

lemma parse_written:
  assumes "plain_options opts" and "opts \<noteq> []"
  shows "parse_text (parser_write (paths_config opts)) = Inr [(''Paths'', opts)]"
proof -
  from assms(2) obtain front k v where opts: "opts = front @ [(k, v)]"
    by (cases opts rule: rev_cases) auto
  from assms(1) have each: "list_all (\<lambda>(k, v). plain_key k \<and> plain_value v) front"
    and last: "plain_value v"
    by (auto simp: opts plain_options_def)
  have options: "read_lines (reader_after [] []) (map option_line opts) =
                   Inr (reader_after opts k)"
    using read_lines_options [of "[]" opts "[]"] assms(1) by (simp add: opts)
  have lines: "read_lines new_reader (file_lines (parser_write (paths_config opts))) =
          Inr ((reader_after opts k)
                 \<lparr>table := [(''Paths'', map (\<lambda>kv. (fst kv, [snd kv])) front @ [(k, [v, []])])]\<rparr>)"
    using read_blank [of front k v] assms(1) options
    by (simp add: file_lines_written [OF assms(1)] read_header read_lines_append)
       (simp add: opts)
  show ?thesis
    unfolding parse_text_def lines
    using joined_options [OF each]
    by (simp add: reader_after_def join_value_plain(2) [OF last] opts)
qed

lemma read_written:
  assumes "plain_options opts" and "opts \<noteq> []"
    and "f filename = Some (File (Text (parser_write (paths_config opts))))"
  shows "parser_read fresh_config f filename = Inr (paths_config opts)"
proof -
  from assms(1) have "store_options opts [] = opts"
    using store_options_distinct [of "[]" opts] by (simp add: plain_options_def)
  thus ?thesis
    unfolding parser_read_def assms(3)
    by (simp add: parse_written [OF assms(1,2)] del: store_sections.simps)
       (simp add: fresh_config_def paths_config_def DEFAULTSECT_def)
qed

subsection \<open>Configuration\<close>

lemma defaults_plain [simp]:
  "percent \<notin> set default_texconv" "percent \<notin> set default_bcdecode"
  "plain_value default_texconv" "plain_value default_bcdecode"
  by (simp_all add: default_texconv_def default_bcdecode_def percent_def backslash_def
        plain_value_def newline_def carriage_return_def strip_def lstrip_def rstrip_def
        is_space_def)

lemma optionxform_keys [simp]:
  "optionxform ''texconv'' = ''texconv''" "optionxform ''bcdecode'' = ''bcdecode''"
  by (simp_all add: optionxform_def lower_char_def)

lemma plain_keys [simp]: "plain_key ''texconv''" "plain_key ''bcdecode''"
  by (simp_all add: plain_key_def is_space_def is_delimiter_def)

lemma plain_default_paths: "plain_options default_paths"
  by (simp add: plain_options_def default_paths_def)

lemma paths_get_plain:
  assumes "config s = paths_config opts" and "map_of opts (optionxform option) = Some v"
    and "percent \<notin> set v"
  shows "paths_get s option fallback = Inr (Some v)"
  using assms
  by (simp add: paths_get_def parser_getitem_def proxy_get_def paths_config_def before_get_def
        interpolate_plain MAX_INTERPOLATION_DEPTH_def Let_def)

lemma paths_setitem_plain:
  assumes "config s = paths_config opts" and "percent \<notin> set v"
  shows "paths_setitem s option v =
           (Inr (), s\<lparr>config := paths_config (dict_set (optionxform option) v opts)\<rparr>)"
  using assms
  by (simp add: paths_setitem_def parser_getitem_def parser_set_def paths_config_def
        before_set_plain DEFAULTSECT_def)

lemma create_default_paths:
  "parser_setitem fresh_config ''Paths''
     [(''texconv'', default_texconv), (''bcdecode'', default_bcdecode)] =
     Inr (paths_config default_paths)"
  by (simp add: parser_setitem_def parser_set_def before_set_plain DEFAULTSECT_def
        default_paths_def fresh_config_def paths_config_def)

lemma store_default_paths:
  "store_sections [(''Paths'', default_paths)] (paths_config default_paths) =
     paths_config default_paths"
  by (simp add: paths_config_def DEFAULTSECT_def store_options_def default_paths_def)

lemmas settings_eval_defs =
  set_texconv_location_def paths_setitem_def parser_getitem_def parser_set_def
  session_with_def paths_config_def DEFAULTSECT_def save_config_def tool_env_def
  before_set_def percent_def keycre_match_def carriage_return_def newline_def tab_def
  load_config_def path_exists_def new_session_def parser_read_def parse_text_def
  parser_write_def write_section_def write_option_def file_lines_def read_line_def
  new_reader_def is_comment_def strip_def lstrip_def rstrip_def is_space_def
  sect_match_def is_delimiter_def append_line_def optionxform_def lower_char_def
  log_def log_to_painter_console_def sample_config_file_def fresh_config_def
  store_options_def join_value_def reloaded_def paths_get_def proxy_get_def before_get_def
  interpolate_some.simps MAX_INTERPOLATION_DEPTH_def create_default_config_def
  parser_setitem_def default_texconv_def default_bcdecode_def backslash_def Let_def

text \<open>
  Claim C6, as amended. At startup the parser is new. When the settings file is absent,
  \<open>load_config\<close> then sets the two default tool paths in memory and tries to write the
  file. When the file can be written, it then holds the two defaults; when opening it
  fails with an I/O error, the failure is logged and no file is created. In both cases
  \<open>load_config\<close> returns normally and the \<open>get\<close> calls that follow return exactly the
  two defaults.
\<close>

theorem load_config_creates_defaults:
  assumes "config s = fresh_config" and "\<not> path_exists (fs s) (CONFIG_FILE e)"
  shows "(open_for_writing e (fs s) (CONFIG_FILE e) = None \<longrightarrow>
            fst (load_config e s) = Inr ()
            \<and> settings_file_option e (snd (load_config e s)) ''texconv'' = Some default_texconv
            \<and> settings_file_option e (snd (load_config e s)) ''bcdecode'' = Some default_bcdecode
            \<and> log_window (snd (load_config e s)) = log_window s
            \<and> paths_get (snd (load_config e s)) ''texconv'' None = Inr (Some default_texconv)
            \<and> paths_get (snd (load_config e s)) ''bcdecode'' None = Inr (Some default_bcdecode))
       \<and> (\<forall>ex. open_for_writing e (fs s) (CONFIG_FILE e) = Some ex \<and> is_oserror (fst ex) \<longrightarrow>
            fst (load_config e s) = Inr ()
            \<and> fs (snd (load_config e s)) = fs s
            \<and> log_window (snd (load_config e s)) =
                log_window s @ [''Failed to save configuration: '' @ snd ex]
            \<and> paths_get (snd (load_config e s)) ''texconv'' None = Inr (Some default_texconv)
            \<and> paths_get (snd (load_config e s)) ''bcdecode'' None = Inr (Some default_bcdecode))"
proof (intro conjI impI allI)
  assume w: "open_for_writing e (fs s) (CONFIG_FILE e) = None"
  let ?text = "parser_write (paths_config default_paths)"
  have some: "default_paths \<noteq> []"
    by (simp add: default_paths_def)
  note parsed = parse_written [OF plain_default_paths some]
  have run: "load_config e s =
      (Inr (), s\<lparr>config := paths_config default_paths,
                fs := (fs s)(CONFIG_FILE e \<mapsto> File (Text ?text))\<rparr>)"
    using assms w
    by (simp add: load_config_def create_default_config_def create_default_paths save_config_def
          parser_read_def parsed store_default_paths del: store_sections.simps)
  show "fst (load_config e s) = Inr ()"
    by (simp add: run)
  show "settings_file_option e (snd (load_config e s)) ''texconv'' = Some default_texconv"
    by (simp add: run settings_file_option_def parsed) (simp add: default_paths_def)
  show "settings_file_option e (snd (load_config e s)) ''bcdecode'' = Some default_bcdecode"
    by (simp add: run settings_file_option_def parsed) (simp add: default_paths_def)
  show "log_window (snd (load_config e s)) = log_window s"
    by (simp add: run)
  show "paths_get (snd (load_config e s)) ''texconv'' None = Inr (Some default_texconv)"
    by (rule paths_get_plain [where opts = default_paths])
       (simp_all add: run default_paths_def)
  show "paths_get (snd (load_config e s)) ''bcdecode'' None = Inr (Some default_bcdecode)"
    by (rule paths_get_plain [where opts = default_paths])
       (simp_all add: run default_paths_def)
next
  fix ex
  assume w: "open_for_writing e (fs s) (CONFIG_FILE e) = Some ex \<and> is_oserror (fst ex)"
  have absent: "fs s (CONFIG_FILE e) = None"
    using assms by (simp add: path_exists_def)
  have run: "load_config e s =
      (Inr (), log (s\<lparr>config := paths_config default_paths\<rparr>)
                 (''Failed to save configuration: '' @ snd ex))"
    using assms w absent
    by (simp add: load_config_def create_default_config_def create_default_paths save_config_def
          parser_read_def log_def log_to_painter_console_def)
  show "fst (load_config e s) = Inr ()"
    by (simp add: run)
  show "fs (snd (load_config e s)) = fs s"
    by (simp add: run)
  show "log_window (snd (load_config e s)) =
      log_window s @ [''Failed to save configuration: '' @ snd ex]"
    by (simp add: run)
  show "paths_get (snd (load_config e s)) ''texconv'' None = Inr (Some default_texconv)"
    by (rule paths_get_plain [where opts = default_paths])
       (simp_all add: run default_paths_def)
  show "paths_get (snd (load_config e s)) ''bcdecode'' None = Inr (Some default_bcdecode)"
    by (rule paths_get_plain [where opts = default_paths])
       (simp_all add: run default_paths_def)
qed

theorem load_config_creates_defaults_witness:
  "config (new_session Map.empty) = fresh_config
   \<and> \<not> path_exists (fs (new_session Map.empty)) (CONFIG_FILE (tool_env (Inr (exit_with 0))))
   \<and> open_for_writing (tool_env (Inr (exit_with 0))) (fs (new_session Map.empty))
         (CONFIG_FILE (tool_env (Inr (exit_with 0)))) = None
   \<and> fst (load_config (tool_env (Inr (exit_with 0))) (new_session Map.empty)) = Inr ()
   \<and> settings_file_option (tool_env (Inr (exit_with 0)))
         (snd (load_config (tool_env (Inr (exit_with 0))) (new_session Map.empty))) ''texconv''
       = Some default_texconv
   \<and> paths_get (snd (load_config (tool_env (Inr (exit_with 0))) (new_session Map.empty)))
         ''texconv'' None = Inr (Some default_texconv)
   \<and> paths_get (snd (load_config (tool_env (Inr (exit_with 0))) (new_session Map.empty)))
         ''bcdecode'' None = Inr (Some default_bcdecode)"
proof -
  have startup: "config (new_session Map.empty) = fresh_config"
    by (simp add: new_session_def)
  have absent: "\<not> path_exists (fs (new_session Map.empty)) (CONFIG_FILE (tool_env (Inr (exit_with 0))))"
    by (simp add: path_exists_def new_session_def)
  have writable: "open_for_writing (tool_env (Inr (exit_with 0))) (fs (new_session Map.empty))
         (CONFIG_FILE (tool_env (Inr (exit_with 0)))) = None"
    by (simp add: tool_env_def)
  from load_config_creates_defaults [OF startup absent] startup absent writable
  show ?thesis
    by simp
qed

text \<open>
  The claim as stated fails: where the settings file cannot be opened for writing,
  \<open>load_config\<close> logs the failure and returns, and the settings file is still absent.
\<close>

theorem unwritable_settings_file_stays_absent:
  "config (new_session Map.empty) = fresh_config
   \<and> \<not> path_exists (fs (new_session Map.empty)) (CONFIG_FILE readonly_env)
   \<and> fst (load_config readonly_env (new_session Map.empty)) = Inr ()
   \<and> \<not> path_exists (fs (snd (load_config readonly_env (new_session Map.empty))))
          (CONFIG_FILE readonly_env)
   \<and> log_window (snd (load_config readonly_env (new_session Map.empty))) =
       [''Failed to save configuration: [Errno 13] Permission denied'']"
  by (simp add: load_config_def create_default_config_def create_default_paths save_config_def
        parser_read_def path_exists_def new_session_def readonly_env_def log_def
        log_to_painter_console_def)

text \<open>
  The parser has to be the new one of startup: \<open>load_config\<close> writes everything the
  parser holds and reads it back, and a value with a carriage return in it is printed as
  two lines of which the second cannot be read.
\<close>

lemma load_config_needs_startup_parser:
  "\<not> path_exists Map.empty (CONFIG_FILE (tool_env (Inr (exit_with 0))))
   \<and> fst (load_config (tool_env (Inr (exit_with 0)))
            \<lparr>fs = Map.empty,
             config = \<lparr>sections = [(''Recent'', [(''file'', ''a'' @ [carriage_return] @ ''b'')])],
                       defaults = []\<rparr>,
             log_window = [], events = []\<rparr>)
       = Inl (ParsingError, ''Source contains parsing errors'')"
  by (simp add: settings_eval_defs)

text \<open>
  Claim C7, as amended. For every path that is not empty, contains no percent sign, no
  line feed and no carriage return, and has no white space at either end: when
  \<open>set_texconv_location\<close> is given the path in a session whose parser holds the section
  \<open>Paths\<close> with plain options, and the settings file can be written, the handler
  returns normally, a reader finds the path in the text of the file, and a new session
  that loads the file gets exactly that path for \<open>texconv\<close>.
\<close>

theorem set_texconv_location_persists:
  assumes "texconv_path \<noteq> []" and "percent \<notin> set texconv_path"
    and "plain_value texconv_path"
    and "config s = paths_config opts" and "plain_options opts"
    and "open_for_writing e (fs s) (CONFIG_FILE e) = None"
  shows "fst (set_texconv_location e s texconv_path) = Inr ()
       \<and> settings_file_option e (snd (set_texconv_location e s texconv_path)) ''texconv''
           = Some texconv_path
       \<and> fst (load_config e (new_session (fs (snd (set_texconv_location e s texconv_path)))))
           = Inr ()
       \<and> paths_get (reloaded e (snd (set_texconv_location e s texconv_path))) ''texconv'' None
           = Inr (Some texconv_path)"
proof -
  let ?opts = "dict_set ''texconv'' texconv_path opts"
  let ?f = "(fs s)(CONFIG_FILE e \<mapsto> File (Text (parser_write (paths_config ?opts))))"
  have plain: "plain_options ?opts"
    using assms(5) plain_keys(1) assms(3) by (rule plain_options_dict_set)
  have some: "?opts \<noteq> []"
    by (cases opts) (auto split: if_splits)
  have held: "map_of ?opts ''texconv'' = Some texconv_path"
    by (simp add: map_of_dict_set)
  have run: "set_texconv_location e s texconv_path =
      (Inr (), log (s\<lparr>config := paths_config ?opts, fs := ?f\<rparr>)
                 (''texconv location set to: '' @ texconv_path))"
    using assms(1,6)
    by (simp add: set_texconv_location_def paths_setitem_plain [OF assms(4,2)] save_config_def)
  have stored: "?f (CONFIG_FILE e) = Some (File (Text (parser_write (paths_config ?opts))))"
    by simp
  have again: "load_config e (new_session ?f) =
      (Inr (), (new_session ?f)\<lparr>config := paths_config ?opts\<rparr>)"
    using read_written [of ?opts ?f "CONFIG_FILE e", OF plain some stored]
    by (simp add: load_config_def path_exists_def new_session_def)
  show ?thesis
  proof (intro conjI)
    show "fst (set_texconv_location e s texconv_path) = Inr ()"
      by (simp add: run)
    show "settings_file_option e (snd (set_texconv_location e s texconv_path)) ''texconv''
            = Some texconv_path"
      by (simp add: run settings_file_option_def parse_written [OF plain some] held)
    show "fst (load_config e (new_session (fs (snd (set_texconv_location e s texconv_path)))))
            = Inr ()"
      by (simp add: run again)
    show "paths_get (reloaded e (snd (set_texconv_location e s texconv_path))) ''texconv'' None
            = Inr (Some texconv_path)"
      by (rule paths_get_plain [where opts = ?opts])
         (simp_all add: reloaded_def run again held assms(2))
  qed
qed

theorem set_texconv_location_persists_witness:
  "''D:/DirectXTex/texconv.exe'' \<noteq> [] \<and> percent \<notin> set ''D:/DirectXTex/texconv.exe''
   \<and> plain_value ''D:/DirectXTex/texconv.exe''
   \<and> config (session_with Map.empty default_paths) = paths_config default_paths
   \<and> plain_options default_paths
   \<and> fst (set_texconv_location (tool_env (Inr (exit_with 0)))
             (session_with Map.empty default_paths) ''D:/DirectXTex/texconv.exe'') = Inr ()
   \<and> settings_file_option (tool_env (Inr (exit_with 0)))
         (snd (set_texconv_location (tool_env (Inr (exit_with 0)))
                 (session_with Map.empty default_paths) ''D:/DirectXTex/texconv.exe''))
         ''texconv'' = Some ''D:/DirectXTex/texconv.exe''
   \<and> paths_get (reloaded (tool_env (Inr (exit_with 0)))
                  (snd (set_texconv_location (tool_env (Inr (exit_with 0)))
                          (session_with Map.empty default_paths) ''D:/DirectXTex/texconv.exe'')))
         ''texconv'' None = Inr (Some ''D:/DirectXTex/texconv.exe'')"
proof -
  have no_percent: "percent \<notin> set ''D:/DirectXTex/texconv.exe''"
    by (simp add: percent_def)
  have plain: "plain_value ''D:/DirectXTex/texconv.exe''"
    by (simp add: plain_value_def newline_def carriage_return_def strip_def lstrip_def
          rstrip_def is_space_def)
  have parser: "config (session_with Map.empty default_paths) = paths_config default_paths"
    by (simp add: session_with_def)
  have writable: "open_for_writing (tool_env (Inr (exit_with 0)))
         (fs (session_with Map.empty default_paths))
         (CONFIG_FILE (tool_env (Inr (exit_with 0)))) = None"
    by (simp add: tool_env_def)
  from set_texconv_location_persists [OF _ no_percent plain parser plain_default_paths writable]
    no_percent plain parser plain_default_paths
  show ?thesis
    by simp
qed

text \<open>
  The claim as stated fails: a path with a doubled percent sign passes the check of the
  parser and is written as it is, but \<open>get\<close> expands \<open>%%\<close> to \<open>%\<close>, so the new
  session gets a different path.
\<close>

lemma escaped_percent_plain:
  "plain_value ''C:/tools/100%%/texconv.exe''"
  "before_set ''C:/tools/100%%/texconv.exe'' = None"
  by (simp_all add: plain_value_def newline_def carriage_return_def strip_def lstrip_def
        rstrip_def is_space_def before_set_def percent_def keycre_match_def)

theorem escaped_percent_is_not_read_back:
  "fst (set_texconv_location (tool_env (Inr (exit_with 0)))
          (session_with Map.empty default_paths) ''C:/tools/100%%/texconv.exe'') = Inr ()
   \<and> settings_file_option (tool_env (Inr (exit_with 0)))
         (snd (set_texconv_location (tool_env (Inr (exit_with 0)))
                 (session_with Map.empty default_paths) ''C:/tools/100%%/texconv.exe''))
         ''texconv'' = Some ''C:/tools/100%%/texconv.exe''
   \<and> paths_get (reloaded (tool_env (Inr (exit_with 0)))
                  (snd (set_texconv_location (tool_env (Inr (exit_with 0)))
                          (session_with Map.empty default_paths) ''C:/tools/100%%/texconv.exe'')))
         ''texconv'' None = Inr (Some ''C:/tools/100%/texconv.exe'')"
proof -
  let ?e = "tool_env (Inr (exit_with 0))"
  let ?s = "session_with Map.empty default_paths"
  let ?P = "''C:/tools/100%%/texconv.exe''"
  let ?opts = "dict_set ''texconv'' ?P default_paths"
  let ?f = "[CONFIG_FILE ?e \<mapsto> File (Text (parser_write (paths_config ?opts)))]"
  have plain: "plain_options ?opts"
    using plain_default_paths plain_keys(1) escaped_percent_plain(1)
    by (rule plain_options_dict_set)
  have some: "?opts \<noteq> []"
    by (simp add: default_paths_def)
  have run: "set_texconv_location ?e ?s ?P =
      (Inr (), log (?s\<lparr>config := paths_config ?opts, fs := ?f\<rparr>)
                 (''texconv location set to: '' @ ?P))"
    using escaped_percent_plain(2)
    by (simp add: set_texconv_location_def paths_setitem_def parser_getitem_def parser_set_def
          session_with_def paths_config_def DEFAULTSECT_def save_config_def tool_env_def)
  have stored: "?f (CONFIG_FILE ?e) = Some (File (Text (parser_write (paths_config ?opts))))"
    by simp
  have again: "load_config ?e (new_session ?f) =
      (Inr (), (new_session ?f)\<lparr>config := paths_config ?opts\<rparr>)"
    using read_written [of ?opts ?f "CONFIG_FILE ?e", OF plain some stored]
    by (simp add: load_config_def path_exists_def new_session_def)
  show ?thesis
  proof (intro conjI)
    show "fst (set_texconv_location ?e ?s ?P) = Inr ()"
      by (simp add: run)
    show "settings_file_option ?e (snd (set_texconv_location ?e ?s ?P)) ''texconv'' = Some ?P"
      by (simp add: run settings_file_option_def parse_written [OF plain some])
         (simp add: default_paths_def)
    show "paths_get (reloaded ?e (snd (set_texconv_location ?e ?s ?P))) ''texconv'' None
            = Inr (Some ''C:/tools/100%/texconv.exe'')"
      by (simp add: reloaded_def run again)
         (simp add: paths_get_def parser_getitem_def proxy_get_def paths_config_def
            default_paths_def before_get_def interpolate_some.simps MAX_INTERPOLATION_DEPTH_def
            percent_def DEFAULTSECT_def)
  qed
qed

text \<open>
  The conditions on the path are needed. A path with a carriage return in it is written
  as it is and read as two lines, so the new session fails to load the file; in a path
  with a line feed followed by a space, the space is read as the indentation of a
  continuation line and is lost.
\<close>

lemma carriage_return_breaks_reload:
  "fst (set_texconv_location (tool_env (Inr (exit_with 0)))
          (session_with Map.empty [(''texconv'', ''a'')]) (''C:/t'' @ [carriage_return] @ ''x'')) = Inr ()
   \<and> fst (load_config (tool_env (Inr (exit_with 0)))
            (new_session (fs (snd (set_texconv_location (tool_env (Inr (exit_with 0)))
               (session_with Map.empty [(''texconv'', ''a'')]) (''C:/t'' @ [carriage_return] @ ''x''))))))
       = Inl (ParsingError, ''Source contains parsing errors'')"
  by (simp add: set_texconv_location_def paths_setitem_def parser_getitem_def parser_set_def
        session_with_def paths_config_def DEFAULTSECT_def save_config_def tool_env_def
        before_set_def percent_def keycre_match_def carriage_return_def newline_def tab_def
        load_config_def path_exists_def new_session_def parser_read_def parse_text_def
        parser_write_def write_section_def write_option_def file_lines_def read_line_def
        new_reader_def is_comment_def strip_def lstrip_def rstrip_def is_space_def
        sect_match_def is_delimiter_def append_line_def optionxform_def lower_char_def
        log_def log_to_painter_console_def sample_config_file_def fresh_config_def Let_def)

lemma indented_line_is_not_read_back:
  "fst (set_texconv_location (tool_env (Inr (exit_with 0)))
          (session_with Map.empty [(''texconv'', ''a'')]) (''C:/t'' @ [newline] @ '' x'')) = Inr ()
   \<and> paths_get (reloaded (tool_env (Inr (exit_with 0)))
                  (snd (set_texconv_location (tool_env (Inr (exit_with 0)))
                          (session_with Map.empty [(''texconv'', ''a'')])
                          (''C:/t'' @ [newline] @ '' x''))))
         ''texconv'' None = Inr (Some (''C:/t'' @ [newline] @ ''x''))"
  by (simp add: settings_eval_defs)

end
